theory Spec2Isabelle
  imports Main
begin

section \<open>JavaScript values\<close>

text \<open>
  The state manager handles emulator responses, service states and the parsed snapshot
  document as values of type \<^verbatim>\<open>any\<close>. They are modelled by the datatype below. A number is
  an integer (counts, sizes and lengths; the rounding of double precision is outside the
  model), \<open>JNaN\<close> is the one non-integer number the arithmetic of the program can reach.
  An object is the list of its own properties in enumeration order, the order
  \<^verbatim>\<open>Object.entries\<close> gives; a lookup takes the first entry of a name.
  A string is the list of its code units.
\<close>

datatype jsval =
    JUndefined
  | JNull
  | JBool bool
  | JNum int
  | JNaN
  | JStr string
  | JArr "jsval list"
  | JObj "(string \<times> jsval) list"

text \<open>
  What the program can throw: a \<^verbatim>\<open>TypeError\<close> of the runtime (property read on
  \<^verbatim>\<open>null\<close>/\<^verbatim>\<open>undefined\<close>, call of a non-function, iteration of a non-iterable), a rejected
  HTTP request, a failed file operation, a YAML syntax error, and the \<^verbatim>\<open>Error\<close> the
  program constructs itself. The string is the message.
\<close>

datatype error =
    TypeError
  | AxiosError string
  | FsError string
  | YAMLError string
  | Error string

type_synonym 'a res = "error + 'a"

definition rbind :: "'a res \<Rightarrow> ('a \<Rightarrow> 'b res) \<Rightarrow> 'b res" where
  "rbind r f = (case r of Inl e \<Rightarrow> Inl e | Inr a \<Rightarrow> f a)"

fun rmap :: "('a \<Rightarrow> 'b res) \<Rightarrow> 'a list \<Rightarrow> 'b list res" where
  "rmap f [] = Inr []"
| "rmap f (x # xs) =
     (case f x of Inl e \<Rightarrow> Inl e
      | Inr y \<Rightarrow> (case rmap f xs of Inl e \<Rightarrow> Inl e | Inr ys \<Rightarrow> Inr (y # ys)))"

text \<open>Truthiness, as \<^verbatim>\<open>if (v)\<close> and \<^verbatim>\<open>v || d\<close> test it.\<close>

fun truthy :: "jsval \<Rightarrow> bool" where
  "truthy JUndefined = False"
| "truthy JNull = False"
| "truthy (JBool b) = b"
| "truthy (JNum n) = (n \<noteq> 0)"
| "truthy JNaN = False"
| "truthy (JStr s) = (s \<noteq> [])"
| "truthy (JArr xs) = True"
| "truthy (JObj kvs) = True"

definition js_or :: "jsval \<Rightarrow> jsval \<Rightarrow> jsval" where
  "js_or v d = (if truthy v then v else d)"

fun nullish :: "jsval \<Rightarrow> bool" where
  "nullish JUndefined = True"
| "nullish JNull = True"
| "nullish v = False"

text \<open>
  Property read \<^verbatim>\<open>v.p\<close>. The names this program reads are never array indices and, apart
  from \<^verbatim>\<open>length\<close>, never names of the built-in prototypes, so an array or a string answers
  \<^verbatim>\<open>length\<close> only and every other primitive answers \<^verbatim>\<open>undefined\<close>.
\<close>

fun get :: "jsval \<Rightarrow> string \<Rightarrow> jsval res" where
  "get JUndefined p = Inl TypeError"
| "get JNull p = Inl TypeError"
| "get (JObj kvs) p = Inr (case map_of kvs p of Some v \<Rightarrow> v | None \<Rightarrow> JUndefined)"
| "get (JArr xs) p = Inr (if p = ''length'' then JNum (int (length xs)) else JUndefined)"
| "get (JStr s) p = Inr (if p = ''length'' then JNum (int (length s)) else JUndefined)"
| "get v p = Inr JUndefined"

text \<open>Optional chaining \<^verbatim>\<open>v?.p\<close>.\<close>

definition get_opt :: "jsval \<Rightarrow> string \<Rightarrow> jsval" where
  "get_opt v p = (if nullish v then JUndefined else (case get v p of Inr x \<Rightarrow> x | Inl e \<Rightarrow> JUndefined))"

text \<open>
  The values a \<^verbatim>\<open>for ... of\<close> loop runs over: the elements of an array, the characters
  of a string. Other values are not iterable.
\<close>

fun iterate :: "jsval \<Rightarrow> jsval list res" where
  "iterate (JArr xs) = Inr xs"
| "iterate (JStr s) = Inr (map (\<lambda>c. JStr [c]) s)"
| "iterate v = Inl TypeError"

text \<open>\<^verbatim>\<open>v.map(f)\<close> on a value without functions of its own: only an array has the method.\<close>

fun js_map :: "(jsval \<Rightarrow> jsval res) \<Rightarrow> jsval \<Rightarrow> jsval res" where
  "js_map f (JArr xs) = (case rmap f xs of Inl e \<Rightarrow> Inl e | Inr ys \<Rightarrow> Inr (JArr ys))"
| "js_map f v = Inl TypeError"

subsection \<open>Conversion to string and addition\<close>

function digits :: "nat \<Rightarrow> string" where
  "digits n = (if n < 10 then [''0123456789'' ! n] else digits (n div 10) @ [''0123456789'' ! (n mod 10)])"
  by pat_completeness auto
termination
  by (relation "measure id") auto

definition show_int :: "int \<Rightarrow> string" where
  "show_int i = (if i < 0 then CHR ''-'' # digits (nat (- i)) else digits (nat i))"

fun join :: "string \<Rightarrow> string list \<Rightarrow> string" where
  "join sep [] = []"
| "join sep [x] = x"
| "join sep (x # y # ys) = x @ sep @ join sep (y # ys)"

fun toString :: "jsval \<Rightarrow> string" where
  "toString JUndefined = ''undefined''"
| "toString JNull = ''null''"
| "toString (JBool b) = (if b then ''true'' else ''false'')"
| "toString (JNum n) = show_int n"
| "toString JNaN = ''NaN''"
| "toString (JStr s) = s"
| "toString (JArr xs) = join '','' (map (\<lambda>v. if nullish v then [] else toString v) xs)"
| "toString (JObj kvs) = ''[object Object]''"

text \<open>\<^verbatim>\<open>a + b\<close>: concatenation as soon as one operand is a string, an array or an object.\<close>

fun toPrimitive :: "jsval \<Rightarrow> jsval" where
  "toPrimitive (JArr xs) = JStr (toString (JArr xs))"
| "toPrimitive (JObj kvs) = JStr (toString (JObj kvs))"
| "toPrimitive v = v"

fun isString :: "jsval \<Rightarrow> bool" where
  "isString (JStr s) = True"
| "isString v = False"

fun toNumber :: "(string \<Rightarrow> jsval) \<Rightarrow> jsval \<Rightarrow> jsval" where
  "toNumber sn JUndefined = JNaN"
| "toNumber sn JNull = JNum 0"
| "toNumber sn (JBool b) = JNum (if b then 1 else 0)"
| "toNumber sn (JNum n) = JNum n"
| "toNumber sn JNaN = JNaN"
| "toNumber sn (JStr s) = sn s"
| "toNumber sn v = toNumber sn (toPrimitive v)"

definition js_add :: "jsval \<Rightarrow> jsval \<Rightarrow> jsval" where
  "js_add a b =
     (let pa = toPrimitive a; pb = toPrimitive b in
      if isString pa \<or> isString pb then JStr (toString pa @ toString pb)
      else (case (toNumber (\<lambda>s. JNaN) pa, toNumber (\<lambda>s. JNaN) pb) of
              (JNum x, JNum y) \<Rightarrow> JNum (x + y)
            | _ \<Rightarrow> JNaN))"

text \<open>
  \<^verbatim>\<open>a > b\<close> against a number. The runtime's conversion of a string to a number
  (\<^verbatim>\<open>StringToNumber\<close>) is taken as the parameter \<open>sn\<close>.
\<close>

definition js_gt_num :: "(string \<Rightarrow> jsval) \<Rightarrow> jsval \<Rightarrow> int \<Rightarrow> bool" where
  "js_gt_num sn a k = (case toNumber sn a of JNum x \<Rightarrow> x > k | _ \<Rightarrow> False)"

text \<open>\<^verbatim>\<open>s.split('/')\<close> and \<^verbatim>\<open>.pop()\<close>.\<close>

fun split :: "char \<Rightarrow> string \<Rightarrow> string list" where
  "split c [] = [] # []"
| "split c (x # xs) =
     (if x = c then [] # split c xs
      else (case split c xs of [] \<Rightarrow> (x # []) # [] | y # ys \<Rightarrow> (x # y) # ys))"

definition pop :: "string list \<Rightarrow> jsval" where
  "pop xs = (if xs = [] then JUndefined else JStr (last xs))"

text \<open>\<^verbatim>\<open>queueUrl.split('/').pop()\<close>: only a string has the method \<^verbatim>\<open>split\<close>.\<close>

fun split_pop :: "jsval \<Rightarrow> jsval res" where
  "split_pop (JStr s) = Inr (pop (split CHR ''/'' s))"
| "split_pop v = Inl TypeError"

text \<open>
  \<^verbatim>\<open>s.toLowerCase()\<close> on the letters A to Z. Outside ASCII the runtime lowers further
  letters, none of them to a letter of a service name.
\<close>

definition lower_char :: "char \<Rightarrow> char" where
  "lower_char c =
     (let n = (of_char c :: nat) in if 65 \<le> n \<and> n \<le> 90 then char_of (n + 32) else c)"

definition toLowerCase :: "string \<Rightarrow> string" where
  "toLowerCase s = map lower_char s"

text \<open>\<^verbatim>\<open>Object.entries(v)\<close> and \<^verbatim>\<open>Object.keys(v)\<close>.\<close>

fun indexed :: "nat \<Rightarrow> jsval list \<Rightarrow> (string \<times> jsval) list" where
  "indexed i [] = []"
| "indexed i (x # xs) = (digits i, x) # indexed (Suc i) xs"

fun entries :: "jsval \<Rightarrow> (string \<times> jsval) list res" where
  "entries JUndefined = Inl TypeError"
| "entries JNull = Inl TypeError"
| "entries (JObj kvs) = Inr kvs"
| "entries (JArr xs) = Inr (indexed 0 xs)"
| "entries (JStr s) = Inr (indexed 0 (map (\<lambda>c. JStr [c]) s))"
| "entries v = Inr []"

definition keys :: "jsval \<Rightarrow> string list res" where
  "keys v = (case entries v of Inl e \<Rightarrow> Inl e | Inr kvs \<Rightarrow> Inr (map fst kvs))"

text \<open>\<^verbatim>\<open>o[k] = v\<close> on an object kept as its property list.\<close>

fun assign :: "(string \<times> jsval) list \<Rightarrow> string \<Rightarrow> jsval \<Rightarrow> (string \<times> jsval) list" where
  "assign [] k v = [(k, v)]"
| "assign ((k', v') # kvs) k v = (if k' = k then (k, v) # kvs else (k', v') # assign kvs k v)"

section \<open>The world outside the program\<close>

text \<open>
  The emulator, the file system, the clock and the YAML library are the environment.
  Its behaviour is a parameter: a state of any type \<open>'w\<close> and one function per operation,
  each returning the operation's outcome (\<open>Inl\<close> the message of the error it raises)
  and the next state. Every property below holds for every environment.
  The program's calls are recorded in \<open>calls\<close>, in order.
\<close>

record request =
  meth :: string
  url :: string
  headers :: "(string \<times> string) list"
  body :: jsval
  timeout :: "nat option"

datatype event =
    HttpCall request
  | FileRead string
  | FileWrite string string
  | FileStat string

record 'w sys =
  http :: "request \<Rightarrow> 'w \<Rightarrow> (string + jsval) \<times> 'w"
  readFile :: "string \<Rightarrow> 'w \<Rightarrow> (string + string) \<times> 'w"
  writeFile :: "string \<Rightarrow> string \<Rightarrow> 'w \<Rightarrow> (string + unit) \<times> 'w"
  statSize :: "string \<Rightarrow> 'w \<Rightarrow> (string + int) \<times> 'w"
  toISOString :: "'w \<Rightarrow> string \<times> 'w"
  stringify :: "jsval \<Rightarrow> string"
  parse :: "string \<Rightarrow> string + jsval"
  stringToNumber :: "string \<Rightarrow> jsval"

record 'w world =
  env :: 'w
  calls :: "event list"

type_synonym ('a, 'w) io = "'w world \<Rightarrow> 'a res \<times> 'w world"

definition io_bind :: "('a, 'w) io \<Rightarrow> ('a \<Rightarrow> ('b, 'w) io) \<Rightarrow> ('b, 'w) io" where
  "io_bind m f = (\<lambda>w. case m w of (Inl e, w') \<Rightarrow> (Inl e, w') | (Inr a, w') \<Rightarrow> f a w')"

definition io_return :: "'a \<Rightarrow> ('a, 'w) io" where
  "io_return a = (\<lambda>w. (Inr a, w))"

definition io_lift :: "'a res \<Rightarrow> ('a, 'w) io" where
  "io_lift r = (\<lambda>w. (r, w))"

text \<open>\<^verbatim>\<open>try { m } catch { h }\<close>.\<close>

definition io_catch :: "('a, 'w) io \<Rightarrow> (error \<Rightarrow> ('a, 'w) io) \<Rightarrow> ('a, 'w) io" where
  "io_catch m h = (\<lambda>w. case m w of (Inl e, w') \<Rightarrow> h e w' | (Inr a, w') \<Rightarrow> (Inr a, w'))"

text \<open>
  \<^verbatim>\<open>axios(req)\<close>: the value returned is the \<^verbatim>\<open>data\<close> of the response, the only field
  the program reads.
\<close>

definition axios :: "'w sys \<Rightarrow> request \<Rightarrow> (jsval, 'w) io" where
  "axios sys req w =
     (case http sys req (env w) of (r, x) \<Rightarrow>
        ((case r of Inl m \<Rightarrow> Inl (AxiosError m) | Inr d \<Rightarrow> Inr d),
         \<lparr>env = x, calls = calls w @ [HttpCall req]\<rparr>))"

definition fs_readFile :: "'w sys \<Rightarrow> string \<Rightarrow> (string, 'w) io" where
  "fs_readFile sys path w =
     (case readFile sys path (env w) of (r, x) \<Rightarrow>
        ((case r of Inl m \<Rightarrow> Inl (FsError m) | Inr c \<Rightarrow> Inr c),
         \<lparr>env = x, calls = calls w @ [FileRead path]\<rparr>))"

definition fs_writeFile :: "'w sys \<Rightarrow> string \<Rightarrow> string \<Rightarrow> (unit, 'w) io" where
  "fs_writeFile sys path content w =
     (case writeFile sys path content (env w) of (r, x) \<Rightarrow>
        ((case r of Inl m \<Rightarrow> Inl (FsError m) | Inr u \<Rightarrow> Inr u),
         \<lparr>env = x, calls = calls w @ [FileWrite path content]\<rparr>))"

definition fs_stat_size :: "'w sys \<Rightarrow> string \<Rightarrow> (int, 'w) io" where
  "fs_stat_size sys path w =
     (case statSize sys path (env w) of (r, x) \<Rightarrow>
        ((case r of Inl m \<Rightarrow> Inl (FsError m) | Inr n \<Rightarrow> Inr n),
         \<lparr>env = x, calls = calls w @ [FileStat path]\<rparr>))"

definition date_now :: "'w sys \<Rightarrow> (string, 'w) io" where
  "date_now sys w = (case toISOString sys (env w) of (t, x) \<Rightarrow> (Inr t, w\<lparr>env := x\<rparr>))"

definition yaml_parse :: "'w sys \<Rightarrow> string \<Rightarrow> jsval res" where
  "yaml_parse sys c = (case parse sys c of Inl m \<Rightarrow> Inl (YAMLError m) | Inr d \<Rightarrow> Inr d)"

text \<open>
  A \<^verbatim>\<open>for (const x of xs)\<close> loop whose body updates local variables: the variables are the
  state \<open>s\<close>, an exception of the body leaves the loop.
\<close>

fun io_for :: "'a list \<Rightarrow> 's \<Rightarrow> ('a \<Rightarrow> 's \<Rightarrow> ('s, 'w) io) \<Rightarrow> ('s, 'w) io" where
  "io_for [] s step = io_return s"
| "io_for (x # xs) s step = io_bind (step x s) (\<lambda>s'. io_for xs s' step)"

section \<open>StateManager\<close>

definition LOCALSTACK_ENDPOINT :: string where
  "LOCALSTACK_ENDPOINT = ''http://localhost:4566''"

text \<open>
  The request \<^verbatim>\<open>makeLocalStackRequest\<close> hands to axios: the placeholder authorization
  first, then the headers of the caller, none of which is an authorization.
\<close>

definition localstack_request ::
  "string \<Rightarrow> string \<Rightarrow> (string \<times> string) list \<Rightarrow> jsval \<Rightarrow> request" where
  "localstack_request method path hdrs data =
     \<lparr>meth = method, url = LOCALSTACK_ENDPOINT @ path,
      headers = (''Authorization'',
        ''AWS4-HMAC-SHA256 Credential=test/20220101/us-east-1/s3/aws4_request, SignedHeaders=host;x-amz-date, Signature=test'') # hdrs,
      body = data, timeout = None\<rparr>"

definition makeLocalStackRequest ::
  "'w sys \<Rightarrow> string \<Rightarrow> string \<Rightarrow> (string \<times> string) list \<Rightarrow> jsval \<Rightarrow> (jsval, 'w) io" where
  "makeLocalStackRequest sys method path hdrs data =
     axios sys (localstack_request method path hdrs data)"

definition health_request :: "nat option \<Rightarrow> request" where
  "health_request t = \<lparr>meth = ''GET'', url = LOCALSTACK_ENDPOINT @ ''/_localstack/health'',
     headers = [], body = JUndefined, timeout = t\<rparr>"

definition getLocalStackVersion :: "'w sys \<Rightarrow> (jsval, 'w) io" where
  "getLocalStackVersion sys =
     io_catch
       (io_bind (axios sys (health_request None)) (\<lambda>health.
        io_bind (io_lift (get health ''version'')) (\<lambda>v.
        io_return (js_or v (JStr ''unknown'')))))
       (\<lambda>e. io_return (JStr ''unknown''))"

definition validateLocalStackConnectivity :: "'w sys \<Rightarrow> (unit, 'w) io" where
  "validateLocalStackConnectivity sys =
     io_catch
       (io_bind (axios sys (health_request (Some 5000))) (\<lambda>health. io_return ()))
       (\<lambda>e. io_lift (Inl (Error ''LocalStack is not accessible. Ensure container is running and healthy.'')))"

subsection \<open>Extractors\<close>

text \<open>\<^verbatim>\<open>Array.isArray(v) ? v : [v]\<close>.\<close>

fun as_array :: "jsval \<Rightarrow> jsval list" where
  "as_array (JArr xs) = xs"
| "as_array v = [v]"

text \<open>An object literal \<^verbatim>\<open>{n1: obj.p1, n2: obj.p2, ...}\<close>.\<close>

definition pick :: "jsval \<Rightarrow> (string \<times> string) list \<Rightarrow> jsval res" where
  "pick obj names =
     (case rmap (\<lambda>(n, p). case get obj p of Inl e \<Rightarrow> Inl e | Inr v \<Rightarrow> Inr (n, v)) names of
        Inl e \<Rightarrow> Inl e
      | Inr kvs \<Rightarrow> Inr (JObj kvs))"

definition extractS3ObjectMetadata :: "jsval \<Rightarrow> jsval res" where
  "extractS3ObjectMetadata listObjectsResult =
     rbind (get listObjectsResult ''ListBucketResult'') (\<lambda>r.
       let contents = get_opt r ''Contents'' in
       if \<not> truthy contents then Inr (JArr [])
       else js_map (\<lambda>obj. pick obj [(''key'', ''Key''), (''size'', ''Size''),
              (''lastModified'', ''LastModified''), (''etag'', ''ETag'')])
              (JArr (as_array contents)))"

definition s3_bucket_body ::
  "'w sys \<Rightarrow> bool \<Rightarrow> jsval \<Rightarrow> jsval list \<times> int \<Rightarrow> (jsval list \<times> int, 'w) io" where
  "s3_bucket_body sys includeData bucket acc =
     io_bind (io_lift (get bucket ''Name'')) (\<lambda>name.
     io_bind (io_lift (get bucket ''CreationDate'')) (\<lambda>creationDate.
     io_bind
       (if includeData then
          io_catch
            (io_bind (makeLocalStackRequest sys ''GET'' (''/'' @ toString name) [] JUndefined)
               (\<lambda>objects. io_lift (extractS3ObjectMetadata objects)))
            (\<lambda>e. io_return (JArr []))
        else io_return (JArr []))
       (\<lambda>objects.
          io_return (fst acc @ [JObj [(''name'', name), (''creationDate'', creationDate),
                                     (''objects'', objects)]],
                     snd acc + 1))))"

definition service_state :: "string \<Rightarrow> jsval \<Rightarrow> jsval \<Rightarrow> jsval" where
  "service_state items xs n = JObj [(items, xs), (''resourceCount'', n)]"

definition exportS3State :: "'w sys \<Rightarrow> bool \<Rightarrow> (jsval, 'w) io" where
  "exportS3State sys includeData =
     io_bind (makeLocalStackRequest sys ''GET'' ''/'' [] JUndefined) (\<lambda>bucketList.
     io_bind (io_lift (get bucketList ''ListAllMyBucketsResult'')) (\<lambda>r.
       let b = get_opt (get_opt r ''Buckets'') ''Bucket'' in
       if truthy b then
         io_bind (io_for (as_array b) ([], 0) (s3_bucket_body sys includeData)) (\<lambda>acc.
           io_return (service_state ''buckets'' (JArr (fst acc)) (JNum (snd acc))))
       else io_return (service_state ''buckets'' (JArr []) (JNum 0))))"

definition dynamo_headers :: "string \<Rightarrow> (string \<times> string) list" where
  "dynamo_headers target =
     [(''X-Amz-Target'', ''DynamoDB_20120810.'' @ target),
      (''Content-Type'', ''application/x-amz-json-1.0'')]"

definition getDynamoDBItemCount :: "'w sys \<Rightarrow> jsval \<Rightarrow> (jsval, 'w) io" where
  "getDynamoDBItemCount sys tableName =
     io_catch
       (io_bind (makeLocalStackRequest sys ''POST'' ''/'' (dynamo_headers ''Scan'')
                   (JObj [(''TableName'', tableName), (''Select'', JStr ''COUNT'')])) (\<lambda>scan.
        io_bind (io_lift (get scan ''Count'')) (\<lambda>c.
        io_return (js_or c (JNum 0)))))
       (\<lambda>e. io_return (JNum 0))"

definition getDynamoDBTableInfo :: "'w sys \<Rightarrow> jsval \<Rightarrow> bool \<Rightarrow> (jsval, 'w) io" where
  "getDynamoDBTableInfo sys tableName includeData =
     io_catch
       (io_bind (makeLocalStackRequest sys ''POST'' ''/'' (dynamo_headers ''DescribeTable'')
                   (JObj [(''TableName'', tableName)])) (\<lambda>tableDesc.
        io_bind (io_lift (get tableDesc ''Table'')) (\<lambda>schema.
        io_bind (if includeData then getDynamoDBItemCount sys tableName else io_return (JNum 0))
          (\<lambda>itemCount.
        io_return (JObj [(''tableName'', tableName), (''schema'', schema),
                         (''itemCount'', itemCount)])))))
       (\<lambda>e. io_return (JObj [(''tableName'', tableName), (''schema'', JNull),
                              (''itemCount'', JNum 0)]))"

definition dynamo_table_body ::
  "'w sys \<Rightarrow> bool \<Rightarrow> jsval \<Rightarrow> jsval list \<times> int \<Rightarrow> (jsval list \<times> int, 'w) io" where
  "dynamo_table_body sys includeData tableName acc =
     io_bind (getDynamoDBTableInfo sys tableName includeData) (\<lambda>tableInfo.
       io_return (fst acc @ [tableInfo], snd acc + 1))"

definition exportDynamoDBState :: "'w sys \<Rightarrow> bool \<Rightarrow> (jsval, 'w) io" where
  "exportDynamoDBState sys includeData =
     io_catch
       (io_bind (makeLocalStackRequest sys ''POST'' ''/'' (dynamo_headers ''ListTables'') (JObj []))
          (\<lambda>tables.
        io_bind (io_lift (get tables ''TableNames'')) (\<lambda>names.
          if truthy names then
            io_bind (io_lift (iterate names)) (\<lambda>ns.
            io_bind (io_for ns ([], 0) (dynamo_table_body sys includeData)) (\<lambda>acc.
              io_return (service_state ''tables'' (JArr (fst acc)) (JNum (snd acc)))))
          else io_return (service_state ''tables'' (JArr []) (JNum 0)))))
       (\<lambda>e. io_return (service_state ''tables'' (JArr []) (JNum 0)))"

definition query_body :: "string \<Rightarrow> string \<Rightarrow> jsval" where
  "query_body action version = JObj [(''Action'', JStr action), (''Version'', JStr version)]"

definition exportSQSState :: "'w sys \<Rightarrow> (jsval, 'w) io" where
  "exportSQSState sys =
     io_catch
       (io_bind (makeLocalStackRequest sys ''POST'' ''/'' [] (query_body ''ListQueues'' ''2012-11-05''))
          (\<lambda>queues.
        io_bind (io_lift (get queues ''ListQueuesResult'')) (\<lambda>r.
          let q = get_opt r ''QueueUrl'' in
          io_return (service_state ''queues'' (js_or q (JArr []))
                       (js_or (get_opt q ''length'') (JNum 0))))))
       (\<lambda>e. io_return (service_state ''queues'' (JArr []) (JNum 0)))"

definition exportSNSState :: "'w sys \<Rightarrow> (jsval, 'w) io" where
  "exportSNSState sys =
     io_catch
       (io_bind (makeLocalStackRequest sys ''POST'' ''/'' [] (query_body ''ListTopics'' ''2010-03-31''))
          (\<lambda>topics.
        io_bind (io_lift (get topics ''ListTopicsResult'')) (\<lambda>r.
          let t = get_opt r ''Topics'' in
          io_return (service_state ''topics'' (js_or t (JArr []))
                       (js_or (get_opt t ''length'') (JNum 0))))))
       (\<lambda>e. io_return (service_state ''topics'' (JArr []) (JNum 0)))"

definition lambda_fields :: "(string \<times> string) list" where
  "lambda_fields =
     [(''functionName'', ''FunctionName''), (''runtime'', ''Runtime''), (''handler'', ''Handler''),
      (''description'', ''Description''), (''timeout'', ''Timeout''), (''memorySize'', ''MemorySize'')]"

definition exportLambdaState :: "'w sys \<Rightarrow> (jsval, 'w) io" where
  "exportLambdaState sys =
     io_catch
       (io_bind (makeLocalStackRequest sys ''GET'' ''/2015-03-31/functions'' [] (JObj []))
          (\<lambda>functions.
        io_bind (io_lift (get functions ''Functions'')) (\<lambda>f.
        io_bind (io_lift (if nullish f then Inr JUndefined
                          else js_map (\<lambda>fn. pick fn lambda_fields) f)) (\<lambda>mapped.
          io_return (service_state ''functions'' (js_or mapped (JArr []))
                       (js_or (get_opt f ''length'') (JNum 0)))))))
       (\<lambda>e. io_return (service_state ''functions'' (JArr []) (JNum 0)))"

definition exportServiceState :: "'w sys \<Rightarrow> string \<Rightarrow> bool \<Rightarrow> (jsval, 'w) io" where
  "exportServiceState sys service includeData =
     (let s = toLowerCase service in
      if s = ''s3'' then exportS3State sys includeData
      else if s = ''dynamodb'' then exportDynamoDBState sys includeData
      else if s = ''sqs'' then exportSQSState sys
      else if s = ''sns'' then exportSNSState sys
      else if s = ''lambda'' then exportLambdaState sys
      else io_return JNull)"

subsection \<open>Reconstructors\<close>

record import_result =
  imported :: int
  skipped :: jsval

text \<open>The create call of one bucket, as the \<^verbatim>\<open>try\<close> block of the loop makes it.\<close>

definition create_bucket :: "'w sys \<Rightarrow> jsval \<Rightarrow> (jsval, 'w) io" where
  "create_bucket sys bucket =
     io_bind (io_lift (get bucket ''name'')) (\<lambda>name.
       makeLocalStackRequest sys ''PUT'' (''/'' @ toString name) [] JUndefined)"

definition s3_create_body :: "'w sys \<Rightarrow> jsval \<Rightarrow> int \<times> int \<Rightarrow> (int \<times> int, 'w) io" where
  "s3_create_body sys bucket acc =
     io_catch
       (io_bind (create_bucket sys bucket) (\<lambda>r. io_return (fst acc + 1, snd acc)))
       (\<lambda>e. io_return (fst acc, snd acc + 1))"

definition importS3State :: "'w sys \<Rightarrow> jsval \<Rightarrow> (import_result, 'w) io" where
  "importS3State sys s3State =
     io_bind (io_lift (get s3State ''buckets'')) (\<lambda>b.
     io_bind (io_lift (iterate (js_or b (JArr [])))) (\<lambda>bs.
     io_bind (io_for bs (0, 0) (s3_create_body sys)) (\<lambda>acc.
     io_return \<lparr>imported = fst acc, skipped = JNum (snd acc)\<rparr>)))"

definition importDynamoDBState :: "'w sys \<Rightarrow> jsval \<Rightarrow> (import_result, 'w) io" where
  "importDynamoDBState sys dynamoState =
     io_bind (io_lift (get dynamoState ''tables'')) (\<lambda>t.
     io_return \<lparr>imported = 0, skipped = js_or (get_opt t ''length'') (JNum 0)\<rparr>)"

text \<open>The create call of one queue, as the \<^verbatim>\<open>try\<close> block of the loop makes it.\<close>

definition create_queue :: "'w sys \<Rightarrow> jsval \<Rightarrow> (jsval, 'w) io" where
  "create_queue sys queueUrl =
     io_bind (io_lift (split_pop queueUrl)) (\<lambda>queueName.
       makeLocalStackRequest sys ''POST'' ''/'' []
         (JObj [(''Action'', JStr ''CreateQueue''), (''QueueName'', queueName),
                (''Version'', JStr ''2012-11-05'')]))"

definition sqs_create_body :: "'w sys \<Rightarrow> jsval \<Rightarrow> int \<times> int \<Rightarrow> (int \<times> int, 'w) io" where
  "sqs_create_body sys queueUrl acc =
     io_catch
       (io_bind (create_queue sys queueUrl) (\<lambda>r. io_return (fst acc + 1, snd acc)))
       (\<lambda>e. io_return (fst acc, snd acc + 1))"

definition importSQSState :: "'w sys \<Rightarrow> jsval \<Rightarrow> (import_result, 'w) io" where
  "importSQSState sys sqsState =
     io_bind (io_lift (get sqsState ''queues'')) (\<lambda>q.
     io_bind (io_lift (iterate (js_or q (JArr [])))) (\<lambda>qs.
     io_bind (io_for qs (0, 0) (sqs_create_body sys)) (\<lambda>acc.
     io_return \<lparr>imported = fst acc, skipped = JNum (snd acc)\<rparr>)))"

definition importSNSState :: "'w sys \<Rightarrow> jsval \<Rightarrow> (import_result, 'w) io" where
  "importSNSState sys snsState =
     io_bind (io_lift (get snsState ''topics'')) (\<lambda>t.
     io_return \<lparr>imported = 0, skipped = js_or (get_opt t ''length'') (JNum 0)\<rparr>)"

definition importLambdaState :: "'w sys \<Rightarrow> jsval \<Rightarrow> (import_result, 'w) io" where
  "importLambdaState sys lambdaState =
     io_bind (io_lift (get lambdaState ''functions'')) (\<lambda>f.
     io_return \<lparr>imported = 0, skipped = js_or (get_opt f ''length'') (JNum 0)\<rparr>)"

definition importServiceState :: "'w sys \<Rightarrow> string \<Rightarrow> jsval \<Rightarrow> (import_result, 'w) io" where
  "importServiceState sys service serviceState =
     (let s = toLowerCase service in
      if s = ''s3'' then importS3State sys serviceState
      else if s = ''dynamodb'' then importDynamoDBState sys serviceState
      else if s = ''sqs'' then importSQSState sys serviceState
      else if s = ''sns'' then importSNSState sys serviceState
      else if s = ''lambda'' then importLambdaState sys serviceState
      else io_return \<lparr>imported = 0, skipped = JNum 0\<rparr>)"

subsection \<open>Export\<close>

record StateExportOptions =
  outputPath :: "string option"
  services :: "string list"
  includeData :: "bool option"

record export_summary =
  exportPath :: string
  servicesExported :: nat
  totalResources :: jsval
  fileSize :: int
  recommendations :: "string list"

definition generateExportRecommendations :: "'w sys \<Rightarrow> jsval \<Rightarrow> string list" where
  "generateExportRecommendations sys resources =
     (if resources = JNum 0
      then [''No resources found - ensure LocalStack services are running and populated'']
      else [])
     @ (if js_gt_num (stringToNumber sys) resources 100
        then [''Large state export - consider splitting by service for better performance'']
        else [])
     @ [''Share this file with team members to replicate the environment'',
        ''Store in version control to track environment changes'']"

definition getExportTroubleshootingTips :: "string list" where
  "getExportTroubleshootingTips =
     [''Ensure LocalStack is running and accessible'',
      ''Check that specified services are enabled'',
      ''Verify sufficient disk space for export file'',
      ''Ensure write permissions for output directory'']"

text \<open>The document handed to the YAML library.\<close>

definition stateData ::
  "string \<Rightarrow> jsval \<Rightarrow> string list \<Rightarrow> (string \<times> jsval) list \<Rightarrow> jsval \<Rightarrow> jsval" where
  "stateData stamp localstackVersion requested svc resources =
     JObj [(''version'', JStr ''1.0''),
           (''timestamp'', JStr stamp),
           (''services'', JObj svc),
           (''metadata'', JObj [(''localstackVersion'', localstackVersion),
                                (''exportedServices'', JArr (map JStr requested)),
                                (''totalResources'', resources)])]"

text \<open>
  The body of the export loop; the state is the \<^verbatim>\<open>services\<close> object of the document and
  the running \<^verbatim>\<open>totalResources\<close>.
\<close>

definition export_service_body ::
  "'w sys \<Rightarrow> bool \<Rightarrow> string \<Rightarrow> (string \<times> jsval) list \<times> jsval
     \<Rightarrow> ((string \<times> jsval) list \<times> jsval, 'w) io" where
  "export_service_body sys incl service acc =
     io_bind (exportServiceState sys service incl) (\<lambda>serviceState.
       if truthy serviceState then
         io_bind (io_lift (get serviceState ''resourceCount'')) (\<lambda>n.
           io_return (assign (fst acc) service serviceState, js_add (snd acc) (js_or n (JNum 0))))
       else io_return acc)"

text \<open>\<^verbatim>\<open>outputPath || defaultPath\<close>, the default derived from the time of the call.\<close>

definition export_path :: "StateExportOptions \<Rightarrow> string \<Rightarrow> string" where
  "export_path options t0 =
     (let stamp = map (\<lambda>c. if c = CHR '':'' \<or> c = CHR ''.'' then CHR ''-'' else c) t0;
          defaultPath = ''localstack-state-'' @ stamp @ ''.yml''
      in case outputPath options of
           None \<Rightarrow> defaultPath
         | Some p \<Rightarrow> if p \<noteq> [] then p else defaultPath)"

text \<open>The end of \<^verbatim>\<open>performStateExport\<close>: write the document, build the summary.\<close>

definition write_snapshot ::
  "'w sys \<Rightarrow> string \<Rightarrow> string list \<Rightarrow> jsval \<Rightarrow> jsval \<Rightarrow> (string \<times> export_summary, 'w) io" where
  "write_snapshot sys path requested doc resources =
     io_bind (fs_writeFile sys path (stringify sys doc)) (\<lambda>u.
     io_bind (fs_stat_size sys path) (\<lambda>size.
     io_return (path,
       \<lparr>exportPath = path,
        servicesExported = length requested,
        totalResources = resources,
        fileSize = size,
        recommendations = generateExportRecommendations sys resources\<rparr>)))"

text \<open>The default \<^verbatim>\<open>includeData = true\<close> of the options.\<close>

definition include_data :: "StateExportOptions \<Rightarrow> bool" where
  "include_data options = (case includeData options of None \<Rightarrow> True | Some b \<Rightarrow> b)"

text \<open>The loop over the requested services.\<close>

definition export_loop ::
  "'w sys \<Rightarrow> StateExportOptions \<Rightarrow> ((string \<times> jsval) list \<times> jsval, 'w) io" where
  "export_loop sys options =
     io_for (services options) ([], JNum 0) (export_service_body sys (include_data options))"

definition performStateExport ::
  "'w sys \<Rightarrow> StateExportOptions \<Rightarrow> (string \<times> export_summary, 'w) io" where
  "performStateExport sys options =
     io_bind (date_now sys) (\<lambda>t0.
     io_bind (date_now sys) (\<lambda>t1.
     io_bind (getLocalStackVersion sys) (\<lambda>v.
     io_bind (export_loop sys options) (\<lambda>acc.
     write_snapshot sys (export_path options t0) (services options)
       (stateData t1 v (services options) (fst acc) (snd acc)) (snd acc)))))"

text \<open>
  The response of a tool: the object the program serialises into the text of its reply.
  The \<^verbatim>\<open>error\<close> field is kept as the error caught, which stands for its message.
\<close>

datatype export_response =
    ExportSuccess string export_summary
  | ExportFailure error "string list"

definition exportState :: "'w sys \<Rightarrow> StateExportOptions \<Rightarrow> 'w world \<Rightarrow> export_response \<times> 'w world" where
  "exportState sys options w =
     (case performStateExport sys options w of
        (Inr r, w') \<Rightarrow> (ExportSuccess (fst r) (snd r), w')
      | (Inl e, w') \<Rightarrow> (ExportFailure e getExportTroubleshootingTips, w'))"

subsection \<open>Import\<close>

text \<open>
  The import summary. \<open>statedResources\<close> is its field \<^verbatim>\<open>totalResources\<close>, the total the
  file states. An entry \<open>(service, e)\<close> of \<open>errors\<close> stands for the text
  \<^verbatim>\<open>Failed to import ${service}: ${message of e}\<close>.
\<close>

record import_summary =
  version :: jsval
  originalTimestamp :: jsval
  servicesFound :: "string list"
  statedResources :: jsval
  importedResources :: int
  skippedResources :: jsval
  errors :: "(string \<times> error) list"

definition generateImportRecommendations :: "'w sys \<Rightarrow> import_summary \<Rightarrow> jsval \<Rightarrow> string list" where
  "generateImportRecommendations sys summary fileVersion =
     (if length (errors summary) > 0
      then [''Some resources failed to import - check LocalStack logs for details'']
      else [])
     @ (if js_gt_num (stringToNumber sys) (skippedResources summary) 0
        then [''Some resources were skipped - they may already exist or require manual creation'']
        else [])
     @ (if fileVersion \<noteq> JStr ''1.0''
        then [''State file version mismatch - some features may not work correctly'']
        else [])
     @ [''Verify imported resources match your expectations'',
        ''Test application functionality after import'']"

definition getImportTroubleshootingTips :: "string list" where
  "getImportTroubleshootingTips =
     [''Verify state file exists and is readable'',
      ''Ensure LocalStack is running and healthy'',
      ''Check that target services are enabled'',
      ''Clear existing resources if conflicts occur'']"

definition import_service_body ::
  "'w sys \<Rightarrow> string \<times> jsval \<Rightarrow> import_summary \<Rightarrow> (import_summary, 'w) io" where
  "import_service_body sys entry summary =
     io_catch
       (io_bind (importServiceState sys (fst entry) (snd entry)) (\<lambda>result.
          io_return (summary\<lparr>
            importedResources := importedResources summary + imported result,
            skippedResources := js_add (skippedResources summary) (skipped result)\<rparr>)))
       (\<lambda>e. io_return (summary\<lparr>errors := errors summary @ [(fst entry, e)]\<rparr>))"

definition performStateImport :: "'w sys \<Rightarrow> string \<Rightarrow> (import_summary \<times> string list, 'w) io" where
  "performStateImport sys statePath =
     io_bind (fs_readFile sys statePath) (\<lambda>stateContent.
     io_bind (io_lift (yaml_parse sys stateContent)) (\<lambda>doc.
     io_bind (io_lift (get doc ''version'')) (\<lambda>ver.
     io_bind (io_lift (get doc ''timestamp'')) (\<lambda>stamp.
     io_bind (io_lift (get doc ''services'')) (\<lambda>svc.
     io_bind (io_lift (keys svc)) (\<lambda>found.
     io_bind (io_lift (get doc ''metadata'')) (\<lambda>metadata.
     io_bind (io_lift (get metadata ''totalResources'')) (\<lambda>resources.
     io_bind (validateLocalStackConnectivity sys) (\<lambda>u.
     io_bind (io_lift (entries svc)) (\<lambda>es.
     io_bind (io_for es
                \<lparr>version = ver, originalTimestamp = stamp, servicesFound = found,
                 statedResources = resources, importedResources = 0,
                 skippedResources = JNum 0, errors = []\<rparr>
                (import_service_body sys)) (\<lambda>summary.
     io_return (summary, generateImportRecommendations sys summary ver))))))))))))"

datatype import_response =
    ImportSuccess import_summary "string list"
  | ImportFailure error "string list"

definition importState :: "'w sys \<Rightarrow> string \<Rightarrow> 'w world \<Rightarrow> import_response \<times> 'w world" where
  "importState sys statePath w =
     (case performStateImport sys statePath w of
        (Inr r, w') \<Rightarrow> (ImportSuccess (fst r) (snd r), w')
      | (Inl e, w') \<Rightarrow> (ImportFailure e getImportTroubleshootingTips, w'))"

section \<open>Notions of the specification\<close>

text \<open>The service kinds that have an extractor and a reconstructor.\<close>

definition known_kinds :: "string set" where
  "known_kinds = {''s3'', ''dynamodb'', ''sqs'', ''sns'', ''lambda''}"

text \<open>
  The resources a service state lists under a field: the elements of the array there,
  none when the field is absent or \<^verbatim>\<open>null\<close>. A state that is \<^verbatim>\<open>null\<close> itself, or holds
  something else than a list there, lists nothing (\<open>None\<close>).
\<close>

definition resources_listed :: "jsval \<Rightarrow> string \<Rightarrow> jsval list option" where
  "resources_listed st f =
     (case get st f of
        Inr (JArr xs) \<Rightarrow> Some xs
      | Inr JUndefined \<Rightarrow> Some []
      | Inr JNull \<Rightarrow> Some []
      | _ \<Rightarrow> None)"

text \<open>
  The outcomes of the create calls for a list of resources, one after the other, each in
  the world the one before has left: \<open>True\<close> for a call that succeeds.
\<close>

fun outcomes :: "('a \<Rightarrow> ('b, 'w) io) \<Rightarrow> 'a list \<Rightarrow> 'w world \<Rightarrow> bool list" where
  "outcomes create [] w = []"
| "outcomes create (x # xs) w =
     (case create x w of
        (Inl e, w') \<Rightarrow> False # outcomes create xs w'
      | (Inr r, w') \<Rightarrow> True # outcomes create xs w')"

definition successes :: "bool list \<Rightarrow> int" where
  "successes os = int (length (filter (\<lambda>b. b) os))"

definition failures :: "bool list \<Rightarrow> int" where
  "failures os = int (length (filter Not os))"

text \<open>
  A file that cannot be read, whose content the YAML library rejects, or whose content is
  no snapshot document: \<^verbatim>\<open>null\<close> (an empty file), or without \<^verbatim>\<open>services\<close> or
  \<^verbatim>\<open>metadata\<close>.
\<close>

definition unusable_snapshot_file :: "'w sys \<Rightarrow> string \<Rightarrow> 'w \<Rightarrow> bool" where
  "unusable_snapshot_file sys p x =
     (case fst (readFile sys p x) of
        Inl m \<Rightarrow> True
      | Inr c \<Rightarrow> (case parse sys c of
                   Inl m \<Rightarrow> True
                 | Inr d \<Rightarrow> nullish d \<or> nullish (get_opt d ''services'')
                            \<or> nullish (get_opt d ''metadata'')))"

text \<open>The request by which each extractor lists the resources of its kind.\<close>

definition s3_listing :: request where
  "s3_listing = localstack_request ''GET'' ''/'' [] JUndefined"

definition dynamodb_listing :: request where
  "dynamodb_listing = localstack_request ''POST'' ''/'' (dynamo_headers ''ListTables'') (JObj [])"

definition sqs_listing :: request where
  "sqs_listing = localstack_request ''POST'' ''/'' [] (query_body ''ListQueues'' ''2012-11-05'')"

definition sns_listing :: request where
  "sns_listing = localstack_request ''POST'' ''/'' [] (query_body ''ListTopics'' ''2010-03-31'')"

definition lambda_listing :: request where
  "lambda_listing = localstack_request ''GET'' ''/2015-03-31/functions'' [] (JObj [])"

text \<open>
  The world in which the export loop starts: the clock has been read twice and the health
  request for the version has been made.
\<close>

definition export_start :: "'w sys \<Rightarrow> 'w world \<Rightarrow> 'w world" where
  "export_start sys w = snd (getLocalStackVersion sys (snd (date_now sys (snd (date_now sys w)))))"

text \<open>
  The service states the extractors produce for a list of requested kinds, in the order
  of the list, each extractor starting in the world the one before has left; a kind
  without extractor produces none.
\<close>

fun produced_states :: "'w sys \<Rightarrow> bool \<Rightarrow> string list \<Rightarrow> 'w world \<Rightarrow> (string \<times> jsval) list" where
  "produced_states sys incl [] w = []"
| "produced_states sys incl (k # ks) w =
     (case exportServiceState sys k incl w of
        (Inl e, w') \<Rightarrow> []
      | (Inr st, w') \<Rightarrow> (if truthy st then [(k, st)] else []) @ produced_states sys incl ks w')"

definition export_produced :: "'w sys \<Rightarrow> StateExportOptions \<Rightarrow> 'w world \<Rightarrow> (string \<times> jsval) list" where
  "export_produced sys options w =
     produced_states sys (include_data options) (services options) (export_start sys w)"

text \<open>The \<^verbatim>\<open>services\<close> mapping of the document an export builds.\<close>

definition exported_services :: "'w sys \<Rightarrow> StateExportOptions \<Rightarrow> 'w world \<Rightarrow> (string \<times> jsval) list" where
  "exported_services sys options w =
     (case export_loop sys options (export_start sys w) of
        (Inl e, w') \<Rightarrow> []
      | (Inr acc, w') \<Rightarrow> fst acc)"

text \<open>
  The resource count of a service state, as a number when the field holds one, and as
  the value \<^verbatim>\<open>resourceCount || 0\<close> the program adds up.
\<close>

definition numeric_count :: "jsval \<Rightarrow> bool" where
  "numeric_count st = (case get st ''resourceCount'' of Inr (JNum n) \<Rightarrow> True | _ \<Rightarrow> False)"

definition resource_count :: "jsval \<Rightarrow> int" where
  "resource_count st = (case get st ''resourceCount'' of Inr (JNum n) \<Rightarrow> n | _ \<Rightarrow> 0)"

definition count_or_zero :: "jsval \<Rightarrow> jsval" where
  "count_or_zero st = js_or (get_opt st ''resourceCount'') (JNum 0)"

text \<open>The field under which the state of a kind holds its items.\<close>

definition items_field :: "string \<Rightarrow> string" where
  "items_field kind =
     (if kind = ''s3'' then ''buckets''
      else if kind = ''dynamodb'' then ''tables''
      else if kind = ''sqs'' then ''queues''
      else if kind = ''sns'' then ''topics''
      else if kind = ''lambda'' then ''functions''
      else [])"

text \<open>A state that holds a list of items counts as many resources as the list is long.\<close>

definition count_matches_list :: "string \<Rightarrow> jsval \<Rightarrow> bool" where
  "count_matches_list kind st =
     (case get st (items_field kind) of
        Inr (JArr xs) \<Rightarrow> get st ''resourceCount'' = Inr (JNum (int (length xs)))
      | _ \<Rightarrow> True)"

text \<open>
  The buckets in the emulator's answer to the bucket listing; a single bucket comes as an
  object, several as an array.
\<close>

definition listed_buckets :: "jsval \<Rightarrow> jsval list" where
  "listed_buckets d =
     (let b = get_opt (get_opt (get_opt d ''ListAllMyBucketsResult'') ''Buckets'') ''Bucket''
      in if truthy b then as_array b else [])"

text \<open>The world after a request: the emulator has moved on, the call is recorded.\<close>

definition after_call :: "'w sys \<Rightarrow> request \<Rightarrow> 'w world \<Rightarrow> 'w world" where
  "after_call sys req w = \<lparr>env = snd (http sys req (env w)), calls = calls w @ [HttpCall req]\<rparr>"

text \<open>A computation that only adds to the record of calls.\<close>

definition growing :: "('a, 'w) io \<Rightarrow> bool" where
  "growing m = (\<forall>w. \<exists>es. calls (snd (m w)) = calls w @ es)"

text \<open>What an extractor other than the one of object storage yields when its listing fails.\<close>

definition empty_or_none :: "jsval \<Rightarrow> bool" where
  "empty_or_none st \<longleftrightarrow>
     st = JNull \<or> st = service_state ''tables'' (JArr []) (JNum 0)
     \<or> st = service_state ''queues'' (JArr []) (JNum 0)
     \<or> st = service_state ''topics'' (JArr []) (JNum 0)
     \<or> st = service_state ''functions'' (JArr []) (JNum 0)"

text \<open>
  The document an export hands to the YAML library and writes to its file: the time of the
  second reading of the clock, the version the health request gave, the services mapping
  and the total of the loop.
\<close>

definition export_stamp :: "'w sys \<Rightarrow> 'w world \<Rightarrow> string" where
  "export_stamp sys w = fst (toISOString sys (env (snd (date_now sys w))))"

definition export_version :: "'w sys \<Rightarrow> 'w world \<Rightarrow> jsval" where
  "export_version sys w =
     (case fst (getLocalStackVersion sys (snd (date_now sys (snd (date_now sys w))))) of
        Inl e \<Rightarrow> JStr ''unknown''
      | Inr v \<Rightarrow> v)"

definition export_document :: "'w sys \<Rightarrow> StateExportOptions \<Rightarrow> 'w world \<Rightarrow> jsval" where
  "export_document sys options w =
     (case export_loop sys options (export_start sys w) of
        (Inl e, w') \<Rightarrow> JUndefined
      | (Inr acc, w') \<Rightarrow>
          stateData (export_stamp sys w) (export_version sys w) (services options)
            (fst acc) (snd acc))"

text \<open>
  A snapshot of an emulator that holds buckets only: every state of another kind lists no
  resource.
\<close>

definition only_buckets :: "(string \<times> jsval) list \<Rightarrow> bool" where
  "only_buckets m =
     list_all (\<lambda>(k, st). toLowerCase k = ''s3''
                 \<or> resources_listed st (items_field (toLowerCase k)) = Some []) m"

text \<open>The number of buckets a snapshot holds, over all its states of object storage.\<close>

definition entry_buckets :: "string \<times> jsval \<Rightarrow> int" where
  "entry_buckets e =
     (if toLowerCase (fst e) = ''s3''
      then (case resources_listed (snd e) ''buckets'' of
              None \<Rightarrow> 0
            | Some bs \<Rightarrow> int (length bs))
      else 0)"

definition exported_bucket_count :: "(string \<times> jsval) list \<Rightarrow> int" where
  "exported_bucket_count m = sum_list (map entry_buckets m)"

text \<open>A state of object storage as the extractor builds it: a list of bucket records.\<close>

definition bucket_state :: "jsval \<Rightarrow> bool" where
  "bucket_state st =
     (case get st ''buckets'' of
        Inr (JArr bs) \<Rightarrow> list_all (\<lambda>b. \<not> nullish b) bs
      | _ \<Rightarrow> False)"

section \<open>Concrete environments\<close>

text \<open>
  An environment whose emulator answers every request by a fixed function of the request,
  with the files kept in memory and a clock that stands still.
\<close>

definition scripted_env ::
  "(request \<Rightarrow> string + jsval) \<Rightarrow> (string \<Rightarrow> string + jsval) \<Rightarrow> (string \<times> string) list sys" where
  "scripted_env answer pr =
     \<lparr>http = (\<lambda>req fs. (answer req, fs)),
      readFile = (\<lambda>p fs. (case map_of fs p of None \<Rightarrow> Inl ''ENOENT'' | Some c \<Rightarrow> Inr c, fs)),
      writeFile = (\<lambda>p c fs. (Inr (), (p, c) # fs)),
      statSize = (\<lambda>p fs. (case map_of fs p of None \<Rightarrow> Inl ''ENOENT''
                                | Some c \<Rightarrow> Inr (int (length c)), fs)),
      toISOString = (\<lambda>fs. (''2024-01-01T00:00:00.000Z'', fs)),
      stringify = (\<lambda>d. ''snapshot''),
      parse = pr,
      stringToNumber = (\<lambda>s. JNaN)\<rparr>"

text \<open>The emulator is not running: every request is refused, no file parses.\<close>

definition unreachable_env :: "(string \<times> string) list sys" where
  "unreachable_env =
     scripted_env (\<lambda>req. Inl ''connect ECONNREFUSED 127.0.0.1:4566'')
       (\<lambda>c. Inl ''Unexpected end of the stream'')"

definition empty_world :: "(string \<times> string) list world" where
  "empty_world = \<lparr>env = [], calls = []\<rparr>"

text \<open>
  The YAML library on the three texts the examples use: an empty file is \<^verbatim>\<open>null\<close>, a file
  with a version only is a document without services, anything else is rejected.
\<close>

definition sample_parse :: "string \<Rightarrow> string + jsval" where
  "sample_parse c =
     (if c = [] then Inr JNull
      else if c = ''version: 1'' then Inr (JObj [(''version'', JNum 1)])
      else Inl ''Unexpected end of the stream'')"

text \<open>
  A running emulator with two buckets and one queue. It refuses to create the bucket
  \<^verbatim>\<open>logs\<close> and creates any other; the services of tables, topics and functions answer with
  an error.
\<close>

definition sample_bucket_listing :: jsval where
  "sample_bucket_listing =
     JObj [(''ListAllMyBucketsResult'', JObj [(''Buckets'', JObj [(''Bucket'',
       JArr [JObj [(''Name'', JStr ''assets''), (''CreationDate'', JStr ''2024-01-01'')],
             JObj [(''Name'', JStr ''logs''), (''CreationDate'', JStr ''2024-01-02'')]])])])]"

definition sample_answer :: "request \<Rightarrow> string + jsval" where
  "sample_answer req =
     (if url req = LOCALSTACK_ENDPOINT @ ''/_localstack/health''
        then Inr (JObj [(''version'', JStr ''3.0.2'')])
      else if meth req = ''GET'' \<and> url req = LOCALSTACK_ENDPOINT @ ''/''
        then Inr sample_bucket_listing
      else if meth req = ''GET'' then Inr (JObj [(''ListBucketResult'', JObj [])])
      else if meth req = ''PUT''
        then (if url req = LOCALSTACK_ENDPOINT @ ''/logs''
              then Inl ''Request failed with status code 409'' else Inr (JStr []))
      else if body req = query_body ''ListQueues'' ''2012-11-05''
        then Inr (JObj [(''ListQueuesResult'',
               JObj [(''QueueUrl'', JArr [JStr ''http://localhost:4566/000000000000/jobs''])])])
      else if get_opt (body req) ''Action'' = JStr ''CreateQueue'' then Inr (JStr [])
      else Inl ''Request failed with status code 500'')"

definition sample_env :: "(string \<times> string) list sys" where
  "sample_env = scripted_env sample_answer sample_parse"

text \<open>A running emulator whose object storage answers the bucket listing with an error.\<close>

definition s3_failing_answer :: "request \<Rightarrow> string + jsval" where
  "s3_failing_answer req =
     (if meth req = ''GET'' \<and> url req = LOCALSTACK_ENDPOINT @ ''/''
      then Inl ''Request failed with status code 500''
      else sample_answer req)"

definition s3_failing_env :: "(string \<times> string) list sys" where
  "s3_failing_env = scripted_env s3_failing_answer sample_parse"

text \<open>
  A freshly reset emulator: it is healthy, holds nothing and creates every bucket asked for.
\<close>

definition fresh_answer :: "request \<Rightarrow> string + jsval" where
  "fresh_answer req =
     (if url req = LOCALSTACK_ENDPOINT @ ''/_localstack/health''
        then Inr (JObj [(''version'', JStr ''3.0.2'')])
      else if meth req = ''PUT'' then Inr (JStr [])
      else Inl ''Request failed with status code 404'')"

text \<open>
  An export of the buckets and the tables of the sample emulator, and the world it leaves.
  In the fresh environment the YAML library reads the text of that export back as the
  document exported.
\<close>

definition bucket_options :: StateExportOptions where
  "bucket_options =
     \<lparr>outputPath = Some ''out.yml'', services = [''s3'', ''DynamoDB''],
      includeData = Some False\<rparr>"

definition exported_world :: "(string \<times> string) list world" where
  "exported_world = \<lparr>env = [(''out.yml'', ''snapshot'')], calls = []\<rparr>"

definition fresh_parse :: "string \<Rightarrow> string + jsval" where
  "fresh_parse c =
     (if c = ''snapshot'' then Inr (export_document sample_env bucket_options empty_world)
      else sample_parse c)"

definition fresh_env :: "(string \<times> string) list sys" where
  "fresh_env = scripted_env fresh_answer fresh_parse"

text \<open>A world with an empty file and a file that holds a version only.\<close>

definition files_world :: "(string \<times> string) list world" where
  "files_world = \<lparr>env = [(''empty.yml'', []), (''partial.yml'', ''version: 1''),
                         (''broken.yml'', ''services: ['')], calls = []\<rparr>"

text \<open>An export of buckets, queues and a kind without extractor, without item detail.\<close>

definition sample_options :: StateExportOptions where
  "sample_options =
     \<lparr>outputPath = Some ''out.yml'', services = [''s3'', ''SQS'', ''glue''],
      includeData = Some False\<rparr>"

section \<open>The monad of effects\<close>

lemma io_bind_return [simp]: "io_bind (io_return a) f = f a"
  by (simp add: io_bind_def io_return_def fun_eq_iff)

lemma io_bind_lift_Inr [simp]: "io_bind (io_lift (Inr a)) f = f a"
  by (simp add: io_bind_def io_lift_def fun_eq_iff)

lemma io_bind_lift_Inl [simp]: "io_bind (io_lift (Inl e)) f = io_lift (Inl e)"
  by (simp add: io_bind_def io_lift_def fun_eq_iff)

lemma io_catch_return [simp]: "io_catch (io_return a) h = io_return a"
  by (simp add: io_catch_def io_return_def fun_eq_iff)

lemma io_catch_lift_Inl [simp]: "io_catch (io_lift (Inl e)) h = h e"
  by (simp add: io_catch_def io_lift_def fun_eq_iff)

lemma io_return_apply: "io_return a w = (Inr a, w)"
  by (simp add: io_return_def)

lemma io_lift_apply: "io_lift r w = (r, w)"
  by (simp add: io_lift_def)

lemma io_bind_apply:
  "io_bind m f w = (case m w of (Inl e, w') \<Rightarrow> (Inl e, w') | (Inr a, w') \<Rightarrow> f a w')"
  by (simp add: io_bind_def)

lemma io_catch_apply:
  "io_catch m h w = (case m w of (Inl e, w') \<Rightarrow> h e w' | (Inr a, w') \<Rightarrow> (Inr a, w'))"
  by (simp add: io_catch_def)

lemmas io_apply = io_bind_apply io_catch_apply io_return_apply io_lift_apply

section \<open>Dispatch on the service kind\<close>

lemma of_char_lower: "(of_char (lower_char c) :: nat) < 65 \<or> 90 < (of_char (lower_char c) :: nat)"
  by (auto simp: lower_char_def Let_def)

lemma lower_char_idem [simp]: "lower_char (lower_char c) = lower_char c"
  using of_char_lower [of c] by (auto simp: lower_char_def [of "lower_char c"] Let_def)

lemma toLowerCase_idem [simp]: "toLowerCase (toLowerCase s) = toLowerCase s"
  by (simp add: toLowerCase_def)

text \<open>
  Claim C10. The extractor and the reconstructor chosen for a service string depend on
  the lowercased string only: a string and its lowercasing select the same handler, two
  strings with the same lowercasing select the same handler, and a string whose
  lowercasing is no known kind yields \<^verbatim>\<open>null\<close> on export and
  \<^verbatim>\<open>{imported: 0, skipped: 0}\<close> on import, with no effect on the world.
\<close>

theorem dispatch_by_lowercase:
  "exportServiceState sys service incl = exportServiceState sys (toLowerCase service) incl
   \<and> importServiceState sys service st = importServiceState sys (toLowerCase service) st
   \<and> (toLowerCase a = toLowerCase b \<longrightarrow>
        exportServiceState sys a incl = exportServiceState sys b incl
        \<and> importServiceState sys a st = importServiceState sys b st)
   \<and> (toLowerCase service \<notin> known_kinds \<longrightarrow>
        exportServiceState sys service incl w = (Inr JNull, w)
        \<and> importServiceState sys service st w = (Inr \<lparr>imported = 0, skipped = JNum 0\<rparr>, w))"
  by (simp add: exportServiceState_def importServiceState_def known_kinds_def Let_def io_return_apply)

theorem dispatch_by_lowercase_witness:
  "toLowerCase ''S3'' = toLowerCase ''s3''
   \<and> exportServiceState unreachable_env ''S3'' True = exportServiceState unreachable_env ''s3'' True
   \<and> importServiceState unreachable_env ''S3'' JNull = importServiceState unreachable_env ''s3'' JNull
   \<and> toLowerCase ''Glue'' \<notin> known_kinds
   \<and> exportServiceState unreachable_env ''Glue'' True empty_world = (Inr JNull, empty_world)
   \<and> importServiceState unreachable_env ''Glue'' JNull empty_world
       = (Inr \<lparr>imported = 0, skipped = JNum 0\<rparr>, empty_world)"
proof -
  have same: "toLowerCase ''S3'' = toLowerCase ''s3''"
    by code_simp
  have unknown: "toLowerCase ''Glue'' \<notin> known_kinds"
    unfolding known_kinds_def by code_simp
  show ?thesis
    using same unknown
      dispatch_by_lowercase [of unreachable_env "''Glue''" True JNull "''S3''" "''s3''" empty_world]
    by blast
qed

section \<open>Reconstructors\<close>

lemma resources_listed_cases:
  assumes "resources_listed st f = Some xs"
  obtains v where "get st f = Inr v"
    "js_or (get_opt v ''length'') (JNum 0) = JNum (int (length xs))"
    "iterate (js_or v (JArr [])) = Inr xs"
  using assms
  by (auto simp: resources_listed_def js_or_def get_opt_def split: sum.splits jsval.splits)

text \<open>
  Claim C6. The reconstructors of key-value tables, topics and functions report no
  resource as imported and every resource the state lists as skipped, and leave the
  world as it is: no request is issued.
\<close>

theorem skip_only_reconstructors:
  "(resources_listed st ''tables'' = Some xs \<longrightarrow>
      importDynamoDBState sys st w = (Inr \<lparr>imported = 0, skipped = JNum (int (length xs))\<rparr>, w))
   \<and> (resources_listed st ''topics'' = Some xs \<longrightarrow>
      importSNSState sys st w = (Inr \<lparr>imported = 0, skipped = JNum (int (length xs))\<rparr>, w))
   \<and> (resources_listed st ''functions'' = Some xs \<longrightarrow>
      importLambdaState sys st w = (Inr \<lparr>imported = 0, skipped = JNum (int (length xs))\<rparr>, w))"
  by (auto simp: importDynamoDBState_def importSNSState_def importLambdaState_def io_return_apply
      elim!: resources_listed_cases)

theorem skip_only_reconstructors_witness:
  "resources_listed (JObj [(''tables'', JArr [JStr ''users'', JStr ''orders''])]) ''tables''
     = Some [JStr ''users'', JStr ''orders'']
   \<and> importDynamoDBState unreachable_env (JObj [(''tables'', JArr [JStr ''users'', JStr ''orders''])])
        empty_world = (Inr \<lparr>imported = 0, skipped = JNum 2\<rparr>, empty_world)
   \<and> resources_listed (JObj [(''topics'', JArr [JStr ''alerts''])]) ''topics'' = Some [JStr ''alerts'']
   \<and> importSNSState unreachable_env (JObj [(''topics'', JArr [JStr ''alerts''])]) empty_world
        = (Inr \<lparr>imported = 0, skipped = JNum 1\<rparr>, empty_world)
   \<and> resources_listed (JObj [(''resourceCount'', JNum 0)]) ''functions'' = Some []
   \<and> importLambdaState unreachable_env (JObj [(''resourceCount'', JNum 0)]) empty_world
        = (Inr \<lparr>imported = 0, skipped = JNum 0\<rparr>, empty_world)"
  using
    skip_only_reconstructors [of "JObj [(''tables'', JArr [JStr ''users'', JStr ''orders''])]"
      "[JStr ''users'', JStr ''orders'']" unreachable_env empty_world]
    skip_only_reconstructors [of "JObj [(''topics'', JArr [JStr ''alerts''])]"
      "[JStr ''alerts'']" unreachable_env empty_world]
    skip_only_reconstructors [of "JObj [(''resourceCount'', JNum 0)]" "[]" unreachable_env empty_world]
  by (simp add: resources_listed_def)

lemma length_outcomes [simp]: "length (outcomes create xs w) = length xs"
  by (induction xs arbitrary: w) (auto split: prod.splits sum.splits)

lemma successes_simps [simp]:
  "successes [] = 0" "successes (True # os) = successes os + 1" "successes (False # os) = successes os"
  by (simp_all add: successes_def)

lemma failures_simps [simp]:
  "failures [] = 0" "failures (True # os) = failures os" "failures (False # os) = failures os + 1"
  by (simp_all add: failures_def)

lemma successes_failures: "successes os + failures os = int (length os)"
  by (induction os) (auto simp: successes_def failures_def)

text \<open>
  A loop that tries one call per resource and counts the success or the failure never
  fails itself; it counts the outcomes.
\<close>

lemma try_loop_counts:
  fixes step :: "'a \<Rightarrow> int \<times> int \<Rightarrow> (int \<times> int, 'w) io"
  assumes step: "\<And>x acc. step x acc =
      io_catch (io_bind (create x) (\<lambda>r. io_return (fst acc + 1, snd acc)))
        (\<lambda>e. io_return (fst acc, snd acc + 1))"
  shows "\<exists>w'. io_for xs (i, k) step w
           = (Inr (i + successes (outcomes create xs w),
                   k + failures (outcomes create xs w)), w')"
proof (induction xs arbitrary: i k w)
  case Nil
  show ?case by (simp add: io_apply)
next
  case (Cons x xs)
  obtain r w1 where r: "create x w = (r, w1)" by force
  show ?case
  proof (cases r)
    case (Inl e)
    with r have "step x (i, k) w = (Inr (i, k + 1), w1)"
      by (simp add: step io_apply)
    moreover from Cons.IH [of i "k + 1" w1] obtain w2 where
      "io_for xs (i, k + 1) step w1
         = (Inr (i + successes (outcomes create xs w1),
                 k + 1 + failures (outcomes create xs w1)), w2)"
      by blast
    ultimately show ?thesis
      using r Inl by (simp add: io_bind_apply)
  next
    case (Inr a)
    with r have "step x (i, k) w = (Inr (i + 1, k), w1)"
      by (simp add: step io_apply)
    moreover from Cons.IH [of "i + 1" k w1] obtain w2 where
      "io_for xs (i + 1, k) step w1
         = (Inr (i + 1 + successes (outcomes create xs w1),
                 k + failures (outcomes create xs w1)), w2)"
      by blast
    ultimately show ?thesis
      using r Inr by (simp add: io_bind_apply)
  qed
qed

text \<open>
  Claim C7. The reconstructors of object storage and of queues never abort: whatever the
  emulator answers to each create call, they return counts. A create call that succeeds
  counts as imported, one that fails counts as skipped, and the loop goes on to the next
  resource, so that the two counts add up to the number of resources listed.
\<close>

theorem per_resource_skip:
  "(resources_listed st ''buckets'' = Some xs \<longrightarrow>
      (\<exists>w'. importS3State sys st w
         = (Inr \<lparr>imported = successes (outcomes (create_bucket sys) xs w),
                 skipped = JNum (failures (outcomes (create_bucket sys) xs w))\<rparr>, w'))
      \<and> successes (outcomes (create_bucket sys) xs w)
          + failures (outcomes (create_bucket sys) xs w) = int (length xs))
   \<and> (resources_listed st ''queues'' = Some xs \<longrightarrow>
      (\<exists>w'. importSQSState sys st w
         = (Inr \<lparr>imported = successes (outcomes (create_queue sys) xs w),
                 skipped = JNum (failures (outcomes (create_queue sys) xs w))\<rparr>, w'))
      \<and> successes (outcomes (create_queue sys) xs w)
          + failures (outcomes (create_queue sys) xs w) = int (length xs))"
proof (intro conjI impI)
  assume "resources_listed st ''buckets'' = Some xs"
  then obtain v where v: "get st ''buckets'' = Inr v" "iterate (js_or v (JArr [])) = Inr xs"
    by (rule resources_listed_cases)
  from try_loop_counts [of "s3_create_body sys" "create_bucket sys" xs 0 0 w]
  obtain w' where "io_for xs (0, 0) (s3_create_body sys) w
           = (Inr (successes (outcomes (create_bucket sys) xs w),
                   failures (outcomes (create_bucket sys) xs w)), w')"
    by (auto simp: s3_create_body_def)
  then show "\<exists>w'. importS3State sys st w
         = (Inr \<lparr>imported = successes (outcomes (create_bucket sys) xs w),
                 skipped = JNum (failures (outcomes (create_bucket sys) xs w))\<rparr>, w')"
    by (simp add: importS3State_def v io_apply)
next
  assume "resources_listed st ''queues'' = Some xs"
  then obtain v where v: "get st ''queues'' = Inr v" "iterate (js_or v (JArr [])) = Inr xs"
    by (rule resources_listed_cases)
  from try_loop_counts [of "sqs_create_body sys" "create_queue sys" xs 0 0 w]
  obtain w' where "io_for xs (0, 0) (sqs_create_body sys) w
           = (Inr (successes (outcomes (create_queue sys) xs w),
                   failures (outcomes (create_queue sys) xs w)), w')"
    by (auto simp: sqs_create_body_def)
  then show "\<exists>w'. importSQSState sys st w
         = (Inr \<lparr>imported = successes (outcomes (create_queue sys) xs w),
                 skipped = JNum (failures (outcomes (create_queue sys) xs w))\<rparr>, w')"
    by (simp add: importSQSState_def v io_apply)
next
  show "successes (outcomes (create_bucket sys) xs w)
          + failures (outcomes (create_bucket sys) xs w) = int (length xs)"
    using successes_failures [of "outcomes (create_bucket sys) xs w"] by simp
next
  show "successes (outcomes (create_queue sys) xs w)
          + failures (outcomes (create_queue sys) xs w) = int (length xs)"
    using successes_failures [of "outcomes (create_queue sys) xs w"] by simp
qed

theorem per_resource_skip_witness:
  "resources_listed (JObj [(''buckets'', JArr [JObj [(''name'', JStr ''assets'')], JObj [(''name'', JStr ''logs'')], JNull])]) ''buckets''
     = Some [JObj [(''name'', JStr ''assets'')], JObj [(''name'', JStr ''logs'')], JNull]
   \<and> outcomes (create_bucket sample_env)
        [JObj [(''name'', JStr ''assets'')], JObj [(''name'', JStr ''logs'')], JNull] empty_world
       = [True, False, False]
   \<and> (\<exists>w'. importS3State sample_env
          (JObj [(''buckets'', JArr [JObj [(''name'', JStr ''assets'')], JObj [(''name'', JStr ''logs'')], JNull])])
          empty_world = (Inr \<lparr>imported = 1, skipped = JNum 2\<rparr>, w'))
   \<and> resources_listed (JObj [(''queues'', JArr [JStr ''http://localhost:4566/000000000000/jobs'', JNum 3])]) ''queues''
     = Some [JStr ''http://localhost:4566/000000000000/jobs'', JNum 3]
   \<and> outcomes (create_queue sample_env)
        [JStr ''http://localhost:4566/000000000000/jobs'', JNum 3] empty_world = [True, False]
   \<and> (\<exists>w'. importSQSState sample_env
          (JObj [(''queues'', JArr [JStr ''http://localhost:4566/000000000000/jobs'', JNum 3])])
          empty_world = (Inr \<lparr>imported = 1, skipped = JNum 1\<rparr>, w'))"
proof -
  have b: "outcomes (create_bucket sample_env)
        [JObj [(''name'', JStr ''assets'')], JObj [(''name'', JStr ''logs'')], JNull] empty_world
       = [True, False, False]"
    by code_simp
  have q: "outcomes (create_queue sample_env)
        [JStr ''http://localhost:4566/000000000000/jobs'', JNum 3] empty_world = [True, False]"
    by code_simp
  show ?thesis
    using b q
      per_resource_skip [of "JObj [(''buckets'', JArr [JObj [(''name'', JStr ''assets'')], JObj [(''name'', JStr ''logs'')], JNull])]"
        "[JObj [(''name'', JStr ''assets'')], JObj [(''name'', JStr ''logs'')], JNull]" sample_env empty_world]
      per_resource_skip [of "JObj [(''queues'', JArr [JStr ''http://localhost:4566/000000000000/jobs'', JNum 3])]"
        "[JStr ''http://localhost:4566/000000000000/jobs'', JNum 3]" sample_env empty_world]
    by (simp add: resources_listed_def)
qed

section \<open>Import of an unusable file\<close>

lemma get_nullish: "nullish v \<Longrightarrow> get v p = Inl TypeError"
  by (cases v) simp_all

lemma get_not_nullish: "\<not> nullish v \<Longrightarrow> get v p = Inr (get_opt v p)"
  by (cases v) (simp_all add: get_opt_def)

lemma keys_nullish: "nullish v \<Longrightarrow> keys v = Inl TypeError"
  by (cases v) (simp_all add: keys_def)

lemma fs_readFile_apply:
  "fs_readFile sys p w =
     ((case fst (readFile sys p (env w)) of Inl m \<Rightarrow> Inl (FsError m) | Inr c \<Rightarrow> Inr c),
      \<lparr>env = snd (readFile sys p (env w)), calls = calls w @ [FileRead p]\<rparr>)"
  by (simp add: fs_readFile_def split: prod.splits)

lemma performStateImport_unusable:
  assumes "unusable_snapshot_file sys p (env w)"
  shows "\<exists>e. performStateImport sys p w
           = (Inl e, \<lparr>env = snd (readFile sys p (env w)), calls = calls w @ [FileRead p]\<rparr>)"
proof (cases "fst (readFile sys p (env w))")
  case (Inl m)
  then show ?thesis
    by (simp add: performStateImport_def io_bind_apply fs_readFile_apply)
next
  case c: (Inr c)
  show ?thesis
  proof (cases "parse sys c")
    case (Inl m)
    then show ?thesis
      by (simp add: performStateImport_def io_bind_apply fs_readFile_apply c yaml_parse_def io_lift_apply)
  next
    case d: (Inr d)
    have start: "performStateImport sys p w = 
       io_bind (io_lift (get d ''version'')) (\<lambda>ver.
     io_bind (io_lift (get d ''timestamp'')) (\<lambda>stamp.
     io_bind (io_lift (get d ''services'')) (\<lambda>svc.
     io_bind (io_lift (keys svc)) (\<lambda>found.
     io_bind (io_lift (get d ''metadata'')) (\<lambda>metadata.
     io_bind (io_lift (get metadata ''totalResources'')) (\<lambda>resources.
     io_bind (validateLocalStackConnectivity sys) (\<lambda>u.
     io_bind (io_lift (entries svc)) (\<lambda>es.
     io_bind (io_for es
                \<lparr>version = ver, originalTimestamp = stamp, servicesFound = found,
                 statedResources = resources, importedResources = 0,
                 skippedResources = JNum 0, errors = []\<rparr>
                (import_service_body sys)) (\<lambda>summary.
     io_return (summary, generateImportRecommendations sys summary ver))))))))))
      \<lparr>env = snd (readFile sys p (env w)), calls = calls w @ [FileRead p]\<rparr>"
      by (simp add: performStateImport_def io_bind_apply [of "fs_readFile sys p"] fs_readFile_apply c yaml_parse_def d)
    from assms c d have bad: "nullish d \<or> nullish (get_opt d ''services'') \<or> nullish (get_opt d ''metadata'')"
      by (simp add: unusable_snapshot_file_def)
    show ?thesis
    proof (cases "nullish d")
      case True
      then show ?thesis
        by (simp add: start get_nullish io_lift_apply)
    next
      case False
      note nd = get_not_nullish [OF False]
      show ?thesis
      proof (cases "nullish (get_opt d ''services'')")
        case True
        then show ?thesis
          by (simp add: start nd keys_nullish io_lift_apply)
      next
        case False
        with bad \<open>\<not> nullish d\<close> have "nullish (get_opt d ''metadata'')" by simp
        then show ?thesis
          by (cases "keys (get_opt d ''services'')") (simp_all add: start nd get_nullish io_lift_apply)
      qed
    qed
  qed
qed

text \<open>
  Claim C8. When the file cannot be read, or its content is rejected by the YAML library
  or is no snapshot document, the import tool returns the failure object with the
  troubleshooting tips for import. The only call it has made is the reading of the file:
  no request went to the emulator and no reconstructor ran.
\<close>

theorem unusable_file_fails:
  assumes "unusable_snapshot_file sys p (env w)"
  shows "\<exists>e. importState sys p w
           = (ImportFailure e getImportTroubleshootingTips,
              \<lparr>env = snd (readFile sys p (env w)), calls = calls w @ [FileRead p]\<rparr>)"
  using performStateImport_unusable [OF assms] by (auto simp: importState_def)

theorem unusable_file_fails_witness:
  "unusable_snapshot_file sample_env ''missing.yml'' (env files_world)
   \<and> (\<exists>e. importState sample_env ''missing.yml'' files_world
          = (ImportFailure e getImportTroubleshootingTips,
             \<lparr>env = snd (readFile sample_env ''missing.yml'' (env files_world)),
              calls = calls files_world @ [FileRead ''missing.yml'']\<rparr>))
   \<and> unusable_snapshot_file sample_env ''broken.yml'' (env files_world)
   \<and> (\<exists>e. importState sample_env ''broken.yml'' files_world
          = (ImportFailure e getImportTroubleshootingTips,
             \<lparr>env = snd (readFile sample_env ''broken.yml'' (env files_world)),
              calls = calls files_world @ [FileRead ''broken.yml'']\<rparr>))
   \<and> unusable_snapshot_file sample_env ''empty.yml'' (env files_world)
   \<and> (\<exists>e. importState sample_env ''empty.yml'' files_world
          = (ImportFailure e getImportTroubleshootingTips,
             \<lparr>env = snd (readFile sample_env ''empty.yml'' (env files_world)),
              calls = calls files_world @ [FileRead ''empty.yml'']\<rparr>))
   \<and> unusable_snapshot_file sample_env ''partial.yml'' (env files_world)
   \<and> (\<exists>e. importState sample_env ''partial.yml'' files_world
          = (ImportFailure e getImportTroubleshootingTips,
             \<lparr>env = snd (readFile sample_env ''partial.yml'' (env files_world)),
              calls = calls files_world @ [FileRead ''partial.yml'']\<rparr>))"
proof -
  have a: "unusable_snapshot_file sample_env ''missing.yml'' (env files_world)" by code_simp
  have b: "unusable_snapshot_file sample_env ''broken.yml'' (env files_world)" by code_simp
  have c: "unusable_snapshot_file sample_env ''empty.yml'' (env files_world)" by code_simp
  have d: "unusable_snapshot_file sample_env ''partial.yml'' (env files_world)" by code_simp
  show ?thesis
    using a b c d unusable_file_fails [OF a] unusable_file_fails [OF b]
      unusable_file_fails [OF c] unusable_file_fails [OF d]
    by blast
qed

section \<open>Extractors whose listing fails\<close>

lemma axios_apply:
  "axios sys req w =
     ((case fst (http sys req (env w)) of Inl m \<Rightarrow> Inl (AxiosError m) | Inr d \<Rightarrow> Inr d),
      \<lparr>env = snd (http sys req (env w)), calls = calls w @ [HttpCall req]\<rparr>)"
  by (simp add: axios_def split: prod.splits)

lemma request_fails:
  assumes "fst (http sys (localstack_request m p h d) (env w)) = Inl msg"
  shows "makeLocalStackRequest sys m p h d w
           = (Inl (AxiosError msg), after_call sys (localstack_request m p h d) w)"
  using assms by (simp add: makeLocalStackRequest_def axios_apply after_call_def)

lemma listing_failure:
  "(fst (http sys s3_listing (env w)) = Inl m \<longrightarrow>
      exportS3State sys incl w = (Inl (AxiosError m), after_call sys s3_listing w))
   \<and> (fst (http sys dynamodb_listing (env w)) = Inl m \<longrightarrow>
      exportDynamoDBState sys incl w
        = (Inr (service_state ''tables'' (JArr []) (JNum 0)), after_call sys dynamodb_listing w))
   \<and> (fst (http sys sqs_listing (env w)) = Inl m \<longrightarrow>
      exportSQSState sys w
        = (Inr (service_state ''queues'' (JArr []) (JNum 0)), after_call sys sqs_listing w))
   \<and> (fst (http sys sns_listing (env w)) = Inl m \<longrightarrow>
      exportSNSState sys w
        = (Inr (service_state ''topics'' (JArr []) (JNum 0)), after_call sys sns_listing w))
   \<and> (fst (http sys lambda_listing (env w)) = Inl m \<longrightarrow>
      exportLambdaState sys w
        = (Inr (service_state ''functions'' (JArr []) (JNum 0)), after_call sys lambda_listing w))"
  by (simp add: exportS3State_def exportDynamoDBState_def exportSQSState_def exportSNSState_def
      exportLambdaState_def s3_listing_def dynamodb_listing_def sqs_listing_def sns_listing_def
      lambda_listing_def io_bind_apply io_catch_apply io_return_apply request_fails)

text \<open>
  Claim C2 on the program: the emulator is running, the listing of the buckets is
  answered with an error. The extractor of object storage lets the error through, and
  the export of queues and buckets fails as a whole, where the extractors of the four
  other kinds return their empty state (\<open>listing_failure\<close>).
\<close>

theorem s3_listing_failure_propagates:
  "http s3_failing_env (health_request (Some 5000)) [] = (Inr (JObj [(''version'', JStr ''3.0.2'')]), [])
   \<and> http s3_failing_env s3_listing [] = (Inl ''Request failed with status code 500'', [])
   \<and> exportS3State s3_failing_env True empty_world
       = (Inl (AxiosError ''Request failed with status code 500''),
          \<lparr>env = [], calls = [HttpCall s3_listing]\<rparr>)
   \<and> exportState s3_failing_env
        \<lparr>outputPath = Some ''out.yml'', services = [''sqs'', ''s3''], includeData = None\<rparr> empty_world
       = (ExportFailure (AxiosError ''Request failed with status code 500'')
            getExportTroubleshootingTips,
          \<lparr>env = [], calls = [HttpCall (health_request None), HttpCall sqs_listing,
                               HttpCall s3_listing]\<rparr>)"
  by code_simp

section \<open>The record of calls\<close>

lemma growingD: "growing m \<Longrightarrow> \<exists>es. calls (snd (m w)) = calls w @ es"
  by (simp add: growing_def)

lemma growing_return [simp]: "growing (io_return a)"
  by (simp add: growing_def io_return_def)

lemma growing_lift [simp]: "growing (io_lift r)"
  by (simp add: growing_def io_lift_def)

lemma growing_bind:
  assumes "growing m" "\<And>a. growing (f a)"
  shows "growing (io_bind m f)"
  unfolding growing_def
proof
  fix w
  obtain r w1 where m: "m w = (r, w1)" by force
  from growingD [OF assms(1), of w] m obtain es where es: "calls w1 = calls w @ es" by auto
  show "\<exists>es. calls (snd (io_bind m f w)) = calls w @ es"
  proof (cases r)
    case (Inl e)
    with m es show ?thesis by (simp add: io_bind_apply)
  next
    case (Inr a)
    from growingD [OF assms(2), of a w1] obtain es' where "calls (snd (f a w1)) = calls w1 @ es'"
      by auto
    with m es Inr show ?thesis by (simp add: io_bind_apply)
  qed
qed

lemma growing_catch:
  assumes "growing m" "\<And>e. growing (h e)"
  shows "growing (io_catch m h)"
  unfolding growing_def
proof
  fix w
  obtain r w1 where m: "m w = (r, w1)" by force
  from growingD [OF assms(1), of w] m obtain es where es: "calls w1 = calls w @ es" by auto
  show "\<exists>es. calls (snd (io_catch m h w)) = calls w @ es"
  proof (cases r)
    case (Inr a)
    with m es show ?thesis by (simp add: io_catch_apply)
  next
    case (Inl e)
    from growingD [OF assms(2), of e w1] obtain es' where "calls (snd (h e w1)) = calls w1 @ es'"
      by auto
    with m es Inl show ?thesis by (simp add: io_catch_apply)
  qed
qed

lemma growing_for:
  assumes "\<And>x s. growing (step x s)"
  shows "growing (io_for xs s step)"
  by (induction xs arbitrary: s) (simp_all add: growing_bind assms)

lemma growing_axios [simp]: "growing (axios sys req)"
  by (simp add: growing_def axios_apply)

lemma growing_request [simp]: "growing (makeLocalStackRequest sys m p h d)"
  by (simp add: makeLocalStackRequest_def)

lemma growing_if: "growing a \<Longrightarrow> growing b \<Longrightarrow> growing (if c then a else b)"
  by simp

lemma growing_let: "(\<And>x. growing (f x)) \<Longrightarrow> growing (let x = v in f x)"
  by simp

lemmas growing_intros = growing_bind growing_catch growing_for growing_if growing_let

lemma growing_date_now [simp]: "growing (date_now sys)"
  by (simp add: growing_def date_now_def split: prod.splits)

lemma growing_writeFile [simp]: "growing (fs_writeFile sys p c)"
  by (simp add: growing_def fs_writeFile_def split: prod.splits)

lemma growing_stat [simp]: "growing (fs_stat_size sys p)"
  by (simp add: growing_def fs_stat_size_def split: prod.splits)

lemma growing_exportS3State [simp]: "growing (exportS3State sys incl)"
  unfolding exportS3State_def s3_bucket_body_def
  by (intro growing_intros growing_return growing_lift growing_request)

lemma growing_getDynamoDBItemCount [simp]: "growing (getDynamoDBItemCount sys t)"
  unfolding getDynamoDBItemCount_def
  by (intro growing_intros growing_return growing_lift growing_request)

lemma growing_exportDynamoDBState [simp]: "growing (exportDynamoDBState sys incl)"
  unfolding exportDynamoDBState_def dynamo_table_body_def getDynamoDBTableInfo_def
  by (intro growing_intros growing_return growing_lift growing_request growing_getDynamoDBItemCount)

lemma growing_exportSQSState [simp]: "growing (exportSQSState sys)"
  unfolding exportSQSState_def
  by (intro growing_intros growing_return growing_lift growing_request)

lemma growing_exportSNSState [simp]: "growing (exportSNSState sys)"
  unfolding exportSNSState_def
  by (intro growing_intros growing_return growing_lift growing_request)

lemma growing_exportLambdaState [simp]: "growing (exportLambdaState sys)"
  unfolding exportLambdaState_def
  by (intro growing_intros growing_return growing_lift growing_request)

lemma growing_exportServiceState [simp]: "growing (exportServiceState sys s incl)"
  by (simp add: exportServiceState_def Let_def)

lemma growing_export_loop [simp]: "growing (io_for xs acc (export_service_body sys incl))"
  unfolding export_service_body_def
  by (intro growing_intros growing_return growing_lift growing_exportServiceState)

section \<open>Export and the reachability of the emulator\<close>

lemma date_now_apply:
  "date_now sys w = (Inr (fst (toISOString sys (env w))), w\<lparr>env := snd (toISOString sys (env w))\<rparr>)"
  by (simp add: date_now_def split: prod.splits)

lemma getLocalStackVersion_apply:
  "\<exists>v. getLocalStackVersion sys w = (Inr v, after_call sys (health_request None) w)"
proof (cases "fst (http sys (health_request None) (env w))")
  case (Inl m)
  then show ?thesis
    by (simp add: getLocalStackVersion_def io_apply axios_apply after_call_def)
next
  case (Inr d)
  then show ?thesis
    by (cases "get d ''version''")
       (simp_all add: getLocalStackVersion_def io_apply axios_apply after_call_def)
qed

text \<open>The start of an export: two readings of the clock and the health request.\<close>

lemma calls_export_start:
  "calls (export_start sys w) = calls w @ [HttpCall (health_request None)]"
proof -
  obtain v where "getLocalStackVersion sys (snd (date_now sys (snd (date_now sys w))))
      = (Inr v, after_call sys (health_request None) (snd (date_now sys (snd (date_now sys w)))))"
    using getLocalStackVersion_apply by blast
  then show ?thesis
    by (simp add: export_start_def after_call_def date_now_apply)
qed

lemma performStateExport_start:
  obtains t0 t1 v where
    "performStateExport sys options w
       = io_bind (export_loop sys options)
           (\<lambda>acc. write_snapshot sys (export_path options t0) (services options)
                     (stateData t1 v (services options) (fst acc) (snd acc)) (snd acc))
           (export_start sys w)"
proof -
  define w1 where "w1 = snd (date_now sys w)"
  define w2 where "w2 = snd (date_now sys w1)"
  obtain v where v: "getLocalStackVersion sys w2 = (Inr v, after_call sys (health_request None) w2)"
    using getLocalStackVersion_apply by blast
  then have st: "export_start sys w = after_call sys (health_request None) w2"
    by (simp add: export_start_def w1_def w2_def)
  have "performStateExport sys options w
       = io_bind (export_loop sys options)
           (\<lambda>acc. write_snapshot sys (export_path options (fst (toISOString sys (env w)))) (services options)
                     (stateData (fst (toISOString sys (env w1))) v (services options) (fst acc) (snd acc)) (snd acc))
           (export_start sys w)"
    using v unfolding st
    by (simp add: performStateExport_def io_bind_apply [of "date_now sys"]
         io_bind_apply [of "getLocalStackVersion sys"] date_now_apply w1_def w2_def)
  then show ?thesis
    by (rule that)
qed

lemma growing_write_snapshot [simp]: "growing (write_snapshot sys path req doc n)"
  unfolding write_snapshot_def
  by (intro growing_intros growing_return growing_writeFile growing_stat)

lemma growing_export_loop' [simp]: "growing (export_loop sys options)"
  by (simp add: export_loop_def)

lemma performStateExport_first_call:
  "\<exists>es. calls (snd (performStateExport sys options w)) = calls w @ HttpCall (health_request None) # es"
proof -
  obtain t0 t1 v where
    p: "performStateExport sys options w
       = io_bind (export_loop sys options)
           (\<lambda>acc. write_snapshot sys (export_path options t0) (services options)
                     (stateData t1 v (services options) (fst acc) (snd acc)) (snd acc))
           (export_start sys w)"
    by (rule performStateExport_start)
  have "growing (io_bind (export_loop sys options)
           (\<lambda>acc. write_snapshot sys (export_path options t0) (services options)
                     (stateData t1 v (services options) (fst acc) (snd acc)) (snd acc)))"
    by (intro growing_bind growing_export_loop' growing_write_snapshot)
  from growingD [OF this, of "export_start sys w"] p
  show ?thesis
    by (auto simp: calls_export_start)
qed

lemma unreachable_extractor:
  assumes down: "\<forall>req x. \<exists>m. fst (http sys req x) = Inl m" and s: "toLowerCase s \<noteq> ''s3''"
  shows "\<exists>st w'. exportServiceState sys s incl w = (Inr st, w') \<and> empty_or_none st"
proof -
  from down obtain m1 where "fst (http sys dynamodb_listing (env w)) = Inl m1" by blast
  note l1 = listing_failure [of sys w m1 incl, THEN conjunct2, THEN conjunct1, rule_format, OF this]
  from down obtain m2 where "fst (http sys sqs_listing (env w)) = Inl m2" by blast
  note l2 = listing_failure [of sys w m2 incl, THEN conjunct2, THEN conjunct2, THEN conjunct1, rule_format, OF this]
  from down obtain m3 where "fst (http sys sns_listing (env w)) = Inl m3" by blast
  note l3 = listing_failure [of sys w m3 incl, THEN conjunct2, THEN conjunct2, THEN conjunct2, THEN conjunct1, rule_format, OF this]
  from down obtain m4 where "fst (http sys lambda_listing (env w)) = Inl m4" by blast
  note l4 = listing_failure [of sys w m4 incl, THEN conjunct2, THEN conjunct2, THEN conjunct2, THEN conjunct2, rule_format, OF this]
  show ?thesis
    using s by (simp add: exportServiceState_def Let_def l1 l2 l3 l4 empty_or_none_def io_return_apply)
qed

lemma empty_or_none_body:
  assumes "exportServiceState sys s incl w = (Inr st, w')" "empty_or_none st"
  shows "\<exists>m'. export_service_body sys incl s (m, JNum 0) w = (Inr (m', JNum 0), w')"
  using assms
  by (auto simp: export_service_body_def io_apply empty_or_none_def service_state_def js_add_def js_or_def)

lemma unreachable_loop:
  assumes down: "\<forall>req x. \<exists>m. fst (http sys req x) = Inl m"
    and s: "\<forall>s \<in> set xs. toLowerCase s \<noteq> ''s3''"
  shows "\<exists>m' w'. io_for xs (m, JNum 0) (export_service_body sys incl) w = (Inr (m', JNum 0), w')"
  using s
proof (induction xs arbitrary: m w)
  case Nil
  show ?case by (simp add: io_apply)
next
  case (Cons x xs)
  from Cons.prems have x: "toLowerCase x \<noteq> ''s3''" by simp
  from unreachable_extractor [OF down x, of incl w] obtain st w1 where
    "exportServiceState sys x incl w = (Inr st, w1)" "empty_or_none st" by blast
  from empty_or_none_body [OF this, of m] obtain m1 where
    b: "export_service_body sys incl x (m, JNum 0) w = (Inr (m1, JNum 0), w1)" by blast
  from Cons.IH [of m1 w1] Cons.prems obtain m' w' where
    "io_for xs (m1, JNum 0) (export_service_body sys incl) w1 = (Inr (m', JNum 0), w')" by auto
  with b show ?case by (simp add: io_apply)
qed

lemma fs_writeFile_apply:
  "fs_writeFile sys p c w =
     ((case fst (writeFile sys p c (env w)) of Inl m \<Rightarrow> Inl (FsError m) | Inr u \<Rightarrow> Inr u),
      \<lparr>env = snd (writeFile sys p c (env w)), calls = calls w @ [FileWrite p c]\<rparr>)"
  by (simp add: fs_writeFile_def split: prod.splits)

lemma fs_stat_size_apply:
  "fs_stat_size sys p w =
     ((case fst (statSize sys p (env w)) of Inl m \<Rightarrow> Inl (FsError m) | Inr n \<Rightarrow> Inr n),
      \<lparr>env = snd (statSize sys p (env w)), calls = calls w @ [FileStat p]\<rparr>)"
  by (simp add: fs_stat_size_def split: prod.splits)

lemma write_snapshot_ok:
  assumes "\<forall>p c x. fst (writeFile sys p c x) = Inr ()"
    "\<forall>p c x. \<exists>n. fst (statSize sys p (snd (writeFile sys p c x))) = Inr n"
  shows "\<exists>s w'. write_snapshot sys path req doc n w = (Inr (path, s), w') \<and> totalResources s = n
      \<and> FileWrite path (stringify sys doc) \<in> set (calls w')"
proof -
  define w1 where "w1 = \<lparr>env = snd (writeFile sys path (stringify sys doc) (env w)),
     calls = calls w @ [FileWrite path (stringify sys doc)]\<rparr>"
  have wr: "fs_writeFile sys path (stringify sys doc) w = (Inr (), w1)"
    using assms(1) by (simp add: fs_writeFile_apply w1_def)
  from assms(2) obtain k where "fst (statSize sys path (env w1)) = Inr k"
    unfolding w1_def by fastforce
  then have st: "fs_stat_size sys path w1 = (Inr k, \<lparr>env = snd (statSize sys path (env w1)),
       calls = calls w1 @ [FileStat path]\<rparr>)"
    by (simp add: fs_stat_size_apply)
  show ?thesis
    by (simp add: write_snapshot_def io_apply wr st) (simp add: w1_def)
qed

text \<open>
  What an export does about the reachability of the emulator. Its first call is the
  health request that reads the emulator's version, before any extractor runs, and a
  failure of that request is not an error. When the emulator refuses every request, the
  export of kinds other than object storage succeeds all the same: the total is zero and
  the snapshot file is written.
\<close>

lemma export_does_not_validate:
  "(\<exists>es. calls (snd (exportState sys options w)) = calls w @ HttpCall (health_request None) # es)
   \<and> ((\<forall>req x. \<exists>m. fst (http sys req x) = Inl m)
        \<and> (\<forall>s \<in> set (services options). toLowerCase s \<noteq> ''s3'')
        \<and> (\<forall>p c x. fst (writeFile sys p c x) = Inr ())
        \<and> (\<forall>p c x. \<exists>n. fst (statSize sys p (snd (writeFile sys p c x))) = Inr n)
      \<longrightarrow> (\<exists>p s w'. exportState sys options w = (ExportSuccess p s, w')
             \<and> totalResources s = JNum 0 \<and> (\<exists>c. FileWrite p c \<in> set (calls w'))))"
proof (intro conjI impI)
  obtain r w' where r: "performStateExport sys options w = (r, w')" by force
  with performStateExport_first_call [of sys options w]
  show "\<exists>es. calls (snd (exportState sys options w)) = calls w @ HttpCall (health_request None) # es"
    by (cases r) (auto simp: exportState_def)
next
  assume a: "(\<forall>req x. \<exists>m. fst (http sys req x) = Inl m)
        \<and> (\<forall>s \<in> set (services options). toLowerCase s \<noteq> ''s3'')
        \<and> (\<forall>p c x. fst (writeFile sys p c x) = Inr ())
        \<and> (\<forall>p c x. \<exists>n. fst (statSize sys p (snd (writeFile sys p c x))) = Inr n)"
  obtain t0 t1 v where
    p: "performStateExport sys options w
       = io_bind (export_loop sys options)
           (\<lambda>acc. write_snapshot sys (export_path options t0) (services options)
                     (stateData t1 v (services options) (fst acc) (snd acc)) (snd acc))
           (export_start sys w)"
    by (rule performStateExport_start)
  from a have down: "\<forall>req x. \<exists>m. fst (http sys req x) = Inl m"
    and nos3: "\<forall>s \<in> set (services options). toLowerCase s \<noteq> ''s3''"
    and wr: "\<forall>p c x. fst (writeFile sys p c x) = Inr ()"
    and stt: "\<forall>p c x. \<exists>n. fst (statSize sys p (snd (writeFile sys p c x))) = Inr n"
    by blast+
  from unreachable_loop [OF down nos3] obtain m' w3 where
    l: "export_loop sys options (export_start sys w) = (Inr (m', JNum 0), w3)"
    unfolding export_loop_def by blast
  from write_snapshot_ok [OF wr stt] obtain s w4 where
    "write_snapshot sys (export_path options t0) (services options)
       (stateData t1 v (services options) m' (JNum 0)) (JNum 0) w3
       = (Inr (export_path options t0, s), w4)" "totalResources s = JNum 0"
    "FileWrite (export_path options t0) (stringify sys (stateData t1 v (services options) m' (JNum 0)))
       \<in> set (calls w4)"
    by blast
  then show "\<exists>p s w'. exportState sys options w = (ExportSuccess p s, w')
             \<and> totalResources s = JNum 0 \<and> (\<exists>c. FileWrite p c \<in> set (calls w'))"
    by (auto simp: exportState_def p io_bind_apply l)
qed

lemma export_does_not_validate_example:
  "(\<forall>req x. \<exists>m. fst (http unreachable_env req x) = Inl m)
   \<and> (\<forall>s \<in> set [''sqs'', ''Lambda'', ''glue'']. toLowerCase s \<noteq> ''s3'')
   \<and> (\<forall>p c x. fst (writeFile unreachable_env p c x) = Inr ())
   \<and> (\<forall>p c x. \<exists>n. fst (statSize unreachable_env p (snd (writeFile unreachable_env p c x))) = Inr n)
   \<and> (\<exists>es. calls (snd (exportState unreachable_env
          \<lparr>outputPath = None, services = [''sqs'', ''Lambda'', ''glue''], includeData = None\<rparr>
          empty_world)) = calls empty_world @ HttpCall (health_request None) # es)
   \<and> (\<exists>p s w'. exportState unreachable_env
          \<lparr>outputPath = None, services = [''sqs'', ''Lambda'', ''glue''], includeData = None\<rparr>
          empty_world = (ExportSuccess p s, w')
        \<and> totalResources s = JNum 0 \<and> (\<exists>c. FileWrite p c \<in> set (calls w')))"
proof -
  have a: "\<forall>req x. \<exists>m. fst (http unreachable_env req x) = Inl m"
    by (simp add: unreachable_env_def scripted_env_def)
  have b: "\<forall>s \<in> set [''sqs'', ''Lambda'', ''glue'']. toLowerCase s \<noteq> ''s3''"
    by code_simp
  have c: "\<forall>p c x. fst (writeFile unreachable_env p c x) = Inr ()"
    by (simp add: unreachable_env_def scripted_env_def)
  have d: "\<forall>p c x. \<exists>n. fst (statSize unreachable_env p (snd (writeFile unreachable_env p c x))) = Inr n"
    by (simp add: unreachable_env_def scripted_env_def)
  show ?thesis
    using a b c d
      export_does_not_validate [of unreachable_env
        "\<lparr>outputPath = None, services = [''sqs'', ''Lambda'', ''glue''], includeData = None\<rparr>"
        empty_world]
    by simp
qed

text \<open>
  Claim C1 on the program: the emulator refuses every request, the health request
  included. The export of the queues makes no connectivity validation; it runs the
  extractor, writes the snapshot file and reports success.
\<close>

theorem export_unreachable_succeeds:
  "http unreachable_env (health_request (Some 5000)) []
     = (Inl ''connect ECONNREFUSED 127.0.0.1:4566'', [])
   \<and> exportState unreachable_env
        \<lparr>outputPath = Some ''out.yml'', services = [''sqs''], includeData = None\<rparr> empty_world
     = (ExportSuccess ''out.yml''
          \<lparr>exportPath = ''out.yml'', servicesExported = 1, totalResources = JNum 0, fileSize = 8,
           recommendations =
             [''No resources found - ensure LocalStack services are running and populated'',
              ''Share this file with team members to replicate the environment'',
              ''Store in version control to track environment changes'']\<rparr>,
        \<lparr>env = [(''out.yml'', ''snapshot'')],
         calls = [HttpCall (health_request None), HttpCall sqs_listing,
                  FileWrite ''out.yml'' ''snapshot'', FileStat ''out.yml'']\<rparr>)"
  by code_simp

section \<open>The export loop\<close>

lemma keys_assign: "fst ` set (assign m k v) = insert k (fst ` set m)"
  by (induction m k v rule: assign.induct) auto

lemma truthy_get: "truthy st \<Longrightarrow> get st p = Inr (get_opt st p)"
  by (cases st) (simp_all add: get_opt_def)

lemma export_service_body_apply:
  "export_service_body sys incl k acc w =
     (case exportServiceState sys k incl w of
        (Inl e, w') \<Rightarrow> (Inl e, w')
      | (Inr st, w') \<Rightarrow>
          (if truthy st then (Inr (assign (fst acc) k st, js_add (snd acc) (count_or_zero st)), w')
           else (Inr acc, w')))"
  by (auto simp: export_service_body_def io_apply truthy_get count_or_zero_def split: prod.splits sum.splits)

lemma export_loop_produced:
  assumes "io_for ks (m0, t0) (export_service_body sys incl) w = (Inr (m, t), w')"
  shows "t = foldl js_add t0 (map (count_or_zero \<circ> snd) (produced_states sys incl ks w))
         \<and> fst ` set m = fst ` set m0 \<union> fst ` set (produced_states sys incl ks w)"
  using assms
proof (induction ks arbitrary: m0 t0 w)
  case Nil
  then show ?case by (simp add: io_apply)
next
  case (Cons k ks)
  obtain r w1 where r: "exportServiceState sys k incl w = (r, w1)" by force
  show ?case
  proof (cases r)
    case (Inl e)
    with r have "export_service_body sys incl k (m0, t0) w = (Inl e, w1)"
      by (simp add: export_service_body_apply [of sys incl k "(m0, t0)" w])
    with Cons.prems show ?thesis
      by (simp add: io_bind_apply)
  next
    case (Inr st)
    show ?thesis
    proof (cases "truthy st")
      case True
      with r Inr have "export_service_body sys incl k (m0, t0) w
          = (Inr (assign m0 k st, js_add t0 (count_or_zero st)), w1)"
        by (simp add: export_service_body_apply [of sys incl k "(m0, t0)" w])
      with Cons.prems
      have "io_for ks (assign m0 k st, js_add t0 (count_or_zero st)) (export_service_body sys incl) w1
              = (Inr (m, t), w')"
        by (simp add: io_bind_apply)
      from Cons.IH [OF this] r Inr True show ?thesis
        by (auto simp: keys_assign)
    next
      case False
      with r Inr have "export_service_body sys incl k (m0, t0) w = (Inr (m0, t0), w1)"
        by (simp add: export_service_body_apply [of sys incl k "(m0, t0)" w])
      with Cons.prems
      have "io_for ks (m0, t0) (export_service_body sys incl) w1 = (Inr (m, t), w')"
        by (simp add: io_bind_apply)
      from Cons.IH [OF this] r Inr False show ?thesis
        by auto
    qed
  qed
qed

lemma js_add_num [simp]: "js_add (JNum a) (JNum b) = JNum (a + b)"
  by (simp add: js_add_def)

lemma numeric_count_or_zero:
  "numeric_count st \<Longrightarrow> count_or_zero st = JNum (resource_count st)"
  by (cases st)
     (auto simp: numeric_count_def count_or_zero_def resource_count_def get_opt_def js_or_def
       split: sum.splits jsval.splits option.splits)

lemma foldl_numeric:
  "list_all (numeric_count \<circ> snd) P \<Longrightarrow>
   foldl js_add (JNum a) (map (count_or_zero \<circ> snd) P) = JNum (a + sum_list (map (resource_count \<circ> snd) P))"
  by (induction P arbitrary: a) (auto simp: numeric_count_or_zero)

lemma produced_known:
  "(k, st) \<in> set (produced_states sys incl ks w) \<Longrightarrow> toLowerCase k \<in> known_kinds"
proof (induction ks arbitrary: w)
  case Nil
  then show ?case by simp
next
  case (Cons a ks)
  obtain r w1 where r: "exportServiceState sys a incl w = (r, w1)" by force
  show ?case
  proof (cases r)
    case (Inl e)
    with Cons.prems r show ?thesis by simp
  next
    case (Inr s)
    from Cons.prems r Inr have "(k = a \<and> st = s \<and> truthy s) \<or> (k, st) \<in> set (produced_states sys incl ks w1)"
      by (auto split: if_splits)
    then show ?thesis
    proof
      assume a: "k = a \<and> st = s \<and> truthy s"
      show ?thesis
      proof (rule ccontr)
        assume "toLowerCase k \<notin> known_kinds"
        with a have "exportServiceState sys a incl w = (Inr JNull, w)"
          by (simp add: exportServiceState_def known_kinds_def Let_def io_return_apply)
        with r Inr a show False by simp
      qed
    next
      assume "(k, st) \<in> set (produced_states sys incl ks w1)"
      then show ?thesis by (rule Cons.IH)
    qed
  qed
qed

lemma write_snapshot_result:
  assumes "write_snapshot sys path req doc n w = (Inr (p, s), w')"
  shows "p = path \<and> totalResources s = n \<and> servicesExported s = length req
         \<and> FileWrite path (stringify sys doc) \<in> set (calls w')"
proof -
  obtain r1 w1 where w1: "fs_writeFile sys path (stringify sys doc) w = (r1, w1)" by force
  then have c1: "calls w1 = calls w @ [FileWrite path (stringify sys doc)]"
    by (auto simp: fs_writeFile_apply)
  obtain r2 w2 where w2: "fs_stat_size sys path w1 = (r2, w2)" by force
  then have c2: "calls w2 = calls w1 @ [FileStat path]"
    by (auto simp: fs_stat_size_apply)
  from assms w1 w2 c1 c2 show ?thesis
    by (cases r1; cases r2) (auto simp: write_snapshot_def io_apply)
qed

text \<open>
  Claim C3. The total of an export summary is the sum of the resource counts of the
  service states the extractors produced, as the program adds them up, and their sum as
  integers when every count is a number. The keys of the services mapping of the document
  are the kinds that produced a state; a kind without extractor produces none and is no
  key. The document written to the file holds this mapping and this total.
\<close>

theorem total_is_sum_of_produced:
  assumes "performStateExport sys options w = (Inr (p, s), w')"
  shows "totalResources s
           = foldl js_add (JNum 0) (map (count_or_zero \<circ> snd) (export_produced sys options w))
    \<and> (list_all (numeric_count \<circ> snd) (export_produced sys options w) \<longrightarrow>
         totalResources s = JNum (sum_list (map (resource_count \<circ> snd) (export_produced sys options w))))
    \<and> fst ` set (exported_services sys options w) = fst ` set (export_produced sys options w)
    \<and> (\<forall>k. toLowerCase k \<notin> known_kinds \<longrightarrow>
          k \<notin> fst ` set (export_produced sys options w)
          \<and> k \<notin> fst ` set (exported_services sys options w))
    \<and> (\<exists>t1 v. FileWrite p (stringify sys (stateData t1 v (services options)
                   (exported_services sys options w) (totalResources s))) \<in> set (calls w'))"
proof -
  obtain t0 t1 v where
    ps: "performStateExport sys options w
       = io_bind (export_loop sys options)
           (\<lambda>acc. write_snapshot sys (export_path options t0) (services options)
                     (stateData t1 v (services options) (fst acc) (snd acc)) (snd acc))
           (export_start sys w)"
    by (rule performStateExport_start)
  obtain r w3 where l: "export_loop sys options (export_start sys w) = (r, w3)" by force
  from assms ps l obtain m t where r: "r = Inr (m, t)"
    by (cases r) (auto simp: io_bind_apply)
  from assms ps l r have
    ws: "write_snapshot sys (export_path options t0) (services options)
          (stateData t1 v (services options) m t) t w3 = (Inr (p, s), w')"
    by (simp add: io_bind_apply)
  note wr = write_snapshot_result [OF ws]
  have es: "exported_services sys options w = m"
    by (simp add: exported_services_def l r)
  from l r have "io_for (services options) ([], JNum 0)
      (export_service_body sys (include_data options)) (export_start sys w) = (Inr (m, t), w3)"
    by (simp add: export_loop_def)
  from export_loop_produced [OF this]
  have t: "t = foldl js_add (JNum 0) (map (count_or_zero \<circ> snd) (export_produced sys options w))"
    and k: "fst ` set m = fst ` set (export_produced sys options w)"
    by (simp_all add: export_produced_def)
  have unknown: "\<forall>k. toLowerCase k \<notin> known_kinds \<longrightarrow> k \<notin> fst ` set (export_produced sys options w)"
    using produced_known [of _ _ sys "include_data options" "services options" "export_start sys w"]
    by (auto simp: export_produced_def)
  have num: "list_all (numeric_count \<circ> snd) (export_produced sys options w) \<longrightarrow>
         totalResources s = JNum (sum_list (map (resource_count \<circ> snd) (export_produced sys options w)))"
    using wr t foldl_numeric [of "export_produced sys options w" 0] by simp
  show ?thesis
    using wr t k unknown num es by auto
qed

theorem total_is_sum_of_produced_witness:
  "performStateExport sample_env sample_options empty_world
     = (Inr (''out.yml'',
          \<lparr>exportPath = ''out.yml'', servicesExported = 3, totalResources = JNum 3, fileSize = 8,
           recommendations =
             [''Share this file with team members to replicate the environment'',
              ''Store in version control to track environment changes'']\<rparr>),
        \<lparr>env = [(''out.yml'', ''snapshot'')],
         calls = [HttpCall (health_request None), HttpCall s3_listing, HttpCall sqs_listing,
                  FileWrite ''out.yml'' ''snapshot'', FileStat ''out.yml'']\<rparr>)
   \<and> list_all (numeric_count \<circ> snd) (export_produced sample_env sample_options empty_world)
   \<and> sum_list (map (resource_count \<circ> snd) (export_produced sample_env sample_options empty_world)) = 3
   \<and> toLowerCase ''glue'' \<notin> known_kinds
   \<and> ''glue'' \<notin> fst ` set (exported_services sample_env sample_options empty_world)
   \<and> fst ` set (exported_services sample_env sample_options empty_world)
       = fst ` set (export_produced sample_env sample_options empty_world)"
proof -
  have run: "performStateExport sample_env sample_options empty_world
     = (Inr (''out.yml'',
          \<lparr>exportPath = ''out.yml'', servicesExported = 3, totalResources = JNum 3, fileSize = 8,
           recommendations =
             [''Share this file with team members to replicate the environment'',
              ''Store in version control to track environment changes'']\<rparr>),
        \<lparr>env = [(''out.yml'', ''snapshot'')],
         calls = [HttpCall (health_request None), HttpCall s3_listing, HttpCall sqs_listing,
                  FileWrite ''out.yml'' ''snapshot'', FileStat ''out.yml'']\<rparr>)"
    by code_simp
  have num: "list_all (numeric_count \<circ> snd) (export_produced sample_env sample_options empty_world)"
    by code_simp
  have three: "sum_list (map (resource_count \<circ> snd) (export_produced sample_env sample_options empty_world)) = 3"
    by code_simp
  have glue: "toLowerCase ''glue'' \<notin> known_kinds"
    unfolding known_kinds_def by code_simp
  show ?thesis
    using run num three glue total_is_sum_of_produced [OF run]
    by simp
qed

section \<open>What the extractors return\<close>

lemma rmap_length: "rmap f xs = Inr ys \<Longrightarrow> length ys = length xs"
  by (induction xs arbitrary: ys) (auto split: sum.splits)

lemma list_or_count:
  "js_or q (JArr []) = JArr xs \<Longrightarrow> js_or (get_opt q ''length'') (JNum 0) = JNum (int (length xs))"
  by (cases q) (auto simp: js_or_def get_opt_def split: if_splits)

lemma get_service_state:
  "get (service_state f xs n) f = Inr xs"
  "f \<noteq> ''resourceCount'' \<Longrightarrow> get (service_state f xs n) ''resourceCount'' = Inr n"
  by (simp_all add: service_state_def)

text \<open>An extractor that cannot fail, since its handler returns a value.\<close>

lemma io_catch_value:
  "\<exists>a w'. io_catch m (\<lambda>e. io_return (h e)) w = (Inr a, w')"
proof -
  obtain r w1 where "m w = (r, w1)" by force
  then show ?thesis
    by (cases r) (simp_all add: io_apply)
qed

lemma s3_bucket_body_result:
  assumes "s3_bucket_body sys incl b acc w = (Inr acc', w')"
  shows "\<exists>x. \<not> nullish x \<and> acc' = (fst acc @ [x], snd acc + 1)"
proof (cases "nullish b")
  case True
  with assms show ?thesis
    by (simp add: s3_bucket_body_def get_nullish io_apply)
next
  case False
  obtain r w1 where o: "(if incl then
          io_catch
            (io_bind (makeLocalStackRequest sys ''GET'' (''/'' @ toString (get_opt b ''Name'')) [] JUndefined)
               (\<lambda>objects. io_lift (extractS3ObjectMetadata objects)))
            (\<lambda>e. io_return (JArr []))
        else io_return (JArr [])) w = (r, w1)" by force
  with assms False show ?thesis
    by (cases r) (auto simp: s3_bucket_body_def get_not_nullish io_apply split: if_splits)
qed

lemma s3_bucket_body_ok:
  assumes "\<not> nullish b"
  shows "\<exists>acc' w'. s3_bucket_body sys incl b acc w = (Inr acc', w')"
proof -
  from io_catch_value [of 
       "io_bind (makeLocalStackRequest sys ''GET'' (''/'' @ toString (get_opt b ''Name'')) [] JUndefined)
               (\<lambda>objects. io_lift (extractS3ObjectMetadata objects))" "\<lambda>e. JArr []" w]
  obtain a w1 where "io_catch
            (io_bind (makeLocalStackRequest sys ''GET'' (''/'' @ toString (get_opt b ''Name'')) [] JUndefined)
               (\<lambda>objects. io_lift (extractS3ObjectMetadata objects)))
            (\<lambda>e. io_return (JArr [])) w = (Inr a, w1)" by blast
  with assms show ?thesis
    by (cases incl) (simp_all add: s3_bucket_body_def get_not_nullish io_apply)
qed

text \<open>A loop that appends one item and adds one to the count on every pass.\<close>

lemma counting_loop:
  fixes step :: "'a \<Rightarrow> jsval list \<times> int \<Rightarrow> (jsval list \<times> int, 'w) io"
  assumes step: "\<And>x acc w acc' w'. step x acc w = (Inr acc', w') \<Longrightarrow>
      \<exists>y. \<not> nullish y \<and> acc' = (fst acc @ [y], snd acc + 1)"
    and run: "io_for xs acc step w = (Inr acc', w')"
  shows "\<exists>ys. fst acc' = fst acc @ ys \<and> length ys = length xs \<and> (\<forall>y\<in>set ys. \<not> nullish y)
     \<and> snd acc' = snd acc + int (length xs)"
  using run
proof (induction xs arbitrary: acc w)
  case Nil
  then show ?case by (simp add: io_apply)
next
  case (Cons x xs)
  obtain r w1 where r: "step x acc w = (r, w1)" by force
  with Cons.prems obtain a1 where a1: "r = Inr a1" and rest: "io_for xs a1 step w1 = (Inr acc', w')"
    by (cases r) (auto simp: io_apply)
  from step r a1 obtain y where y: "\<not> nullish y" "a1 = (fst acc @ [y], snd acc + 1)" by blast
  from Cons.IH [OF rest] obtain ys where
    "fst acc' = fst a1 @ ys" "length ys = length xs" "\<forall>y\<in>set ys. \<not> nullish y"
    "snd acc' = snd a1 + int (length xs)" by blast
  with y show ?case
    by (intro exI [of _ "y # ys"]) simp
qed

lemma counting_loop_ok:
  fixes step :: "'a \<Rightarrow> jsval list \<times> int \<Rightarrow> (jsval list \<times> int, 'w) io"
  assumes "\<And>x acc w. x \<in> set xs \<Longrightarrow> \<exists>acc' w'. step x acc w = (Inr acc', w')"
  shows "\<exists>acc' w'. io_for xs acc step w = (Inr acc', w')"
  using assms
proof (induction xs arbitrary: acc w)
  case Nil
  show ?case by (simp add: io_apply)
next
  case (Cons x xs)
  from Cons.prems [of x acc w] obtain a1 w1 where "step x acc w = (Inr a1, w1)" by auto
  moreover from Cons.IH [of a1 w1] Cons.prems obtain a2 w2 where "io_for xs a1 step w1 = (Inr a2, w2)"
    by auto
  ultimately show ?case by (simp add: io_apply)
qed

lemma exportS3State_result:
  assumes "exportS3State sys incl w = (Inr st, w')"
  shows "\<exists>bs. st = service_state ''buckets'' (JArr bs) (JNum (int (length bs)))
           \<and> (\<forall>b\<in>set bs. \<not> nullish b)"
proof -
  obtain r w1 where r: "makeLocalStackRequest sys ''GET'' ''/'' [] JUndefined w = (r, w1)" by force
  with assms obtain d where d: "r = Inr d"
    by (cases r) (auto simp: exportS3State_def io_apply)
  from assms r d obtain l where l: "get d ''ListAllMyBucketsResult'' = Inr l"
    by (cases "get d ''ListAllMyBucketsResult''") (auto simp: exportS3State_def io_apply)
  define B where "B = get_opt (get_opt l ''Buckets'') ''Bucket''"
  show ?thesis
  proof (cases "truthy B")
    case False
    with assms r d l have "st = service_state ''buckets'' (JArr []) (JNum (int (length ([] :: jsval list))))"
      by (auto simp: exportS3State_def io_apply B_def Let_def)
    then show ?thesis
      by (intro exI [of _ "[]"]) simp
  next
    case True
    obtain r2 w2 where r2: "io_for (as_array B) ([], 0) (s3_bucket_body sys incl) w1 = (r2, w2)"
      by force
    with assms r d l True obtain acc where acc: "r2 = Inr acc"
      and st: "st = service_state ''buckets'' (JArr (fst acc)) (JNum (snd acc))"
      by (cases r2) (auto simp: exportS3State_def io_apply B_def Let_def)
    have "\<exists>ys. fst acc = fst ([] :: jsval list, 0 :: int) @ ys \<and> length ys = length (as_array B)
        \<and> (\<forall>y\<in>set ys. \<not> nullish y)
        \<and> snd acc = snd ([] :: jsval list, 0 :: int) + int (length (as_array B))"
    proof (rule counting_loop [where step = "s3_bucket_body sys incl"])
      show "\<And>x acc w acc' w'. s3_bucket_body sys incl x acc w = (Inr acc', w') \<Longrightarrow>
          \<exists>y. \<not> nullish y \<and> acc' = (fst acc @ [y], snd acc + 1)"
        by (rule s3_bucket_body_result)
      show "io_for (as_array B) ([], 0) (s3_bucket_body sys incl) w1 = (Inr acc, w2)"
        using r2 acc by simp
    qed
    with st show ?thesis
      by (intro exI [of _ "fst acc"]) auto
  qed
qed

lemma dynamo_table_body_result:
  "\<exists>info w'. \<not> nullish info \<and> dynamo_table_body sys incl t acc w = (Inr (fst acc @ [info], snd acc + 1), w')"
proof -
  obtain r w1 where r: "io_bind (makeLocalStackRequest sys ''POST'' ''/'' (dynamo_headers ''DescribeTable'')
                   (JObj [(''TableName'', t)])) (\<lambda>tableDesc.
        io_bind (io_lift (get tableDesc ''Table'')) (\<lambda>schema.
        io_bind (if incl then getDynamoDBItemCount sys t else io_return (JNum 0))
          (\<lambda>itemCount.
        io_return (JObj [(''tableName'', t), (''schema'', schema),
                         (''itemCount'', itemCount)])))) w = (r, w1)" by force
  show ?thesis
  proof (cases r)
    case (Inl e)
    with r show ?thesis
      by (simp add: dynamo_table_body_def getDynamoDBTableInfo_def io_catch_apply io_bind_apply [of "io_catch _ _"] io_return_apply)
  next
    case (Inr a)
    with r have "\<not> nullish a"
      by (auto simp: io_apply split: prod.splits sum.splits if_splits)
    with r Inr show ?thesis
      by (simp add: dynamo_table_body_def getDynamoDBTableInfo_def io_catch_apply io_bind_apply [of "io_catch _ _"] io_return_apply)
  qed
qed

lemma empty_counted:
  "m w = (Inr (service_state f (JArr []) (JNum 0)), w0) \<Longrightarrow>
   \<exists>xs w'. m w = (Inr (service_state f (JArr xs) (JNum (int (length xs)))), w')"
  by (intro exI [of _ "[]"] exI [of _ w0]) simp

lemma empty_or:
  "m w = (Inr (service_state f (JArr []) (JNum 0)), w0) \<Longrightarrow>
   \<exists>q w'. m w = (Inr (service_state f (js_or q (JArr [])) (js_or (get_opt q ''length'') (JNum 0))), w')"
  by (intro exI [of _ JUndefined] exI [of _ w0]) (simp add: js_or_def get_opt_def)

lemma dynamo_loop_result:
  "\<exists>ts w'. io_for ns ([], 0) (dynamo_table_body sys incl) w = (Inr (ts, int (length ts)), w')"
proof -
  have ok: "\<exists>acc' w'. io_for ns ([], 0) (dynamo_table_body sys incl) w = (Inr acc', w')"
    by (rule counting_loop_ok) (use dynamo_table_body_result in blast)
  then obtain acc' w' where run: "io_for ns ([], 0) (dynamo_table_body sys incl) w = (Inr acc', w')"
    by blast
  have "\<exists>ys. fst acc' = fst ([] :: jsval list, 0 :: int) @ ys \<and> length ys = length ns
        \<and> (\<forall>y\<in>set ys. \<not> nullish y)
        \<and> snd acc' = snd ([] :: jsval list, 0 :: int) + int (length ns)"
  proof (rule counting_loop [where step = "dynamo_table_body sys incl"])
    fix x acc w acc' w'
    assume "dynamo_table_body sys incl x acc w = (Inr acc', w')"
    with dynamo_table_body_result [of sys incl x acc w]
    show "\<exists>y. \<not> nullish y \<and> acc' = (fst acc @ [y], snd acc + 1)" by auto
  next
    show "io_for ns ([], 0) (dynamo_table_body sys incl) w = (Inr acc', w')" by (rule run)
  qed
  then have "acc' = (fst acc', int (length (fst acc')))"
    by (cases acc') auto
  with run show ?thesis by metis
qed

lemma exportDynamoDBState_result:
  "\<exists>ts w'. exportDynamoDBState sys incl w
     = (Inr (service_state ''tables'' (JArr ts) (JNum (int (length ts)))), w')"
proof -
  obtain r0 w0 where r0: "makeLocalStackRequest sys ''POST'' ''/'' (dynamo_headers ''ListTables'') (JObj []) w = (r0, w0)"
    by force
  show ?thesis
  proof (cases r0)
    case (Inl e)
    with r0 have "exportDynamoDBState sys incl w = (Inr (service_state ''tables'' (JArr []) (JNum 0)), w0)"
      by (simp add: exportDynamoDBState_def io_apply)
    then show ?thesis by (rule empty_counted)
  next
    case (Inr d)
    show ?thesis
    proof (cases "get d ''TableNames''")
      case (Inl e)
      with r0 Inr have "exportDynamoDBState sys incl w = (Inr (service_state ''tables'' (JArr []) (JNum 0)), w0)"
        by (simp add: exportDynamoDBState_def io_apply)
      then show ?thesis by (rule empty_counted)
    next
      case n: (Inr names)
      show ?thesis
      proof (cases "truthy names")
        case False
        with r0 Inr n have "exportDynamoDBState sys incl w = (Inr (service_state ''tables'' (JArr []) (JNum 0)), w0)"
          by (simp add: exportDynamoDBState_def io_apply)
        then show ?thesis by (rule empty_counted)
      next
        case True
        show ?thesis
        proof (cases "iterate names")
          case (Inl e)
          with r0 Inr n True have "exportDynamoDBState sys incl w = (Inr (service_state ''tables'' (JArr []) (JNum 0)), w0)"
            by (simp add: exportDynamoDBState_def io_apply)
          then show ?thesis by (rule empty_counted)
        next
          case ns: (Inr ns)
          from dynamo_loop_result [of ns sys incl w0] obtain ts w2 where
            "io_for ns ([], 0) (dynamo_table_body sys incl) w0 = (Inr (ts, int (length ts)), w2)" by blast
          with r0 Inr n True ns
          have "exportDynamoDBState sys incl w
                  = (Inr (service_state ''tables'' (JArr ts) (JNum (int (length ts)))), w2)"
            by (simp add: exportDynamoDBState_def io_apply)
          then show ?thesis by blast
        qed
      qed
    qed
  qed
qed

lemma exportSQSState_result:
  "\<exists>q w'. exportSQSState sys w
     = (Inr (service_state ''queues'' (js_or q (JArr [])) (js_or (get_opt q ''length'') (JNum 0))), w')"
proof -
  obtain r0 w0 where r0: "makeLocalStackRequest sys ''POST'' ''/'' [] (query_body ''ListQueues'' ''2012-11-05'') w = (r0, w0)"
    by force
  show ?thesis
  proof (cases r0)
    case (Inl e)
    with r0 have "exportSQSState sys w = (Inr (service_state ''queues'' (JArr []) (JNum 0)), w0)"
      by (simp add: exportSQSState_def io_apply)
    then show ?thesis by (rule empty_or)
  next
    case (Inr d)
    show ?thesis
    proof (cases "get d ''ListQueuesResult''")
      case (Inl e)
      with r0 Inr have "exportSQSState sys w = (Inr (service_state ''queues'' (JArr []) (JNum 0)), w0)"
        by (simp add: exportSQSState_def io_apply)
      then show ?thesis by (rule empty_or)
    next
      case r: (Inr l)
      with r0 Inr have "exportSQSState sys w
          = (Inr (service_state ''queues'' (js_or (get_opt l ''QueueUrl'') (JArr []))
                    (js_or (get_opt (get_opt l ''QueueUrl'') ''length'') (JNum 0))), w0)"
        by (simp add: exportSQSState_def io_apply Let_def)
      then show ?thesis by blast
    qed
  qed
qed

lemma exportSNSState_result:
  "\<exists>q w'. exportSNSState sys w
     = (Inr (service_state ''topics'' (js_or q (JArr [])) (js_or (get_opt q ''length'') (JNum 0))), w')"
proof -
  obtain r0 w0 where r0: "makeLocalStackRequest sys ''POST'' ''/'' [] (query_body ''ListTopics'' ''2010-03-31'') w = (r0, w0)"
    by force
  show ?thesis
  proof (cases r0)
    case (Inl e)
    with r0 have "exportSNSState sys w = (Inr (service_state ''topics'' (JArr []) (JNum 0)), w0)"
      by (simp add: exportSNSState_def io_apply)
    then show ?thesis by (rule empty_or)
  next
    case (Inr d)
    show ?thesis
    proof (cases "get d ''ListTopicsResult''")
      case (Inl e)
      with r0 Inr have "exportSNSState sys w = (Inr (service_state ''topics'' (JArr []) (JNum 0)), w0)"
        by (simp add: exportSNSState_def io_apply)
      then show ?thesis by (rule empty_or)
    next
      case r: (Inr l)
      with r0 Inr have "exportSNSState sys w
          = (Inr (service_state ''topics'' (js_or (get_opt l ''Topics'') (JArr []))
                    (js_or (get_opt (get_opt l ''Topics'') ''length'') (JNum 0))), w0)"
        by (simp add: exportSNSState_def io_apply Let_def)
      then show ?thesis by blast
    qed
  qed
qed

lemma js_map_length: "js_map g f = Inr m \<Longrightarrow> \<exists>xs ys. f = JArr xs \<and> m = JArr ys \<and> length ys = length xs"
  by (cases f) (auto split: sum.splits dest: rmap_length)

lemma exportLambdaState_result:
  "\<exists>xs w'. exportLambdaState sys w
     = (Inr (service_state ''functions'' (JArr xs) (JNum (int (length xs)))), w')"
proof -
  obtain r0 w0 where r0: "makeLocalStackRequest sys ''GET'' ''/2015-03-31/functions'' [] (JObj []) w = (r0, w0)"
    by force
  show ?thesis
  proof (cases r0)
    case (Inl e)
    with r0 have "exportLambdaState sys w = (Inr (service_state ''functions'' (JArr []) (JNum 0)), w0)"
      by (simp add: exportLambdaState_def io_apply)
    then show ?thesis by (rule empty_counted)
  next
    case (Inr d)
    show ?thesis
    proof (cases "get d ''Functions''")
      case (Inl e)
      with r0 Inr have "exportLambdaState sys w = (Inr (service_state ''functions'' (JArr []) (JNum 0)), w0)"
        by (simp add: exportLambdaState_def io_apply)
      then show ?thesis by (rule empty_counted)
    next
      case f: (Inr f)
      show ?thesis
      proof (cases "nullish f")
        case True
        with r0 Inr f have "exportLambdaState sys w = (Inr (service_state ''functions'' (JArr []) (JNum 0)), w0)"
          by (simp add: exportLambdaState_def io_apply js_or_def get_opt_def)
        then show ?thesis by (rule empty_counted)
      next
        case False
        show ?thesis
        proof (cases "js_map (\<lambda>fn. pick fn lambda_fields) f")
          case (Inl e)
          with r0 Inr f False
          have "exportLambdaState sys w = (Inr (service_state ''functions'' (JArr []) (JNum 0)), w0)"
            by (simp add: exportLambdaState_def io_apply)
          then show ?thesis by (rule empty_counted)
        next
          case m: (Inr m)
          from js_map_length [OF m] obtain xs ys where
            xy: "f = JArr xs" "m = JArr ys" "length ys = length xs" by blast
          with r0 Inr f False m
          have "exportLambdaState sys w
             = (Inr (service_state ''functions'' (JArr ys) (JNum (int (length ys)))), w0)"
            by (simp add: exportLambdaState_def io_apply js_or_def get_opt_def)
          then show ?thesis by blast
        qed
      qed
    qed
  qed
qed

lemma count_matches_counted:
  "f = items_field kind \<Longrightarrow> f \<noteq> ''resourceCount'' \<Longrightarrow>
   count_matches_list kind (service_state f (JArr xs) (JNum (int (length xs))))"
  by (simp add: count_matches_list_def get_service_state)

lemma count_matches_or:
  "f = items_field kind \<Longrightarrow> f \<noteq> ''resourceCount'' \<Longrightarrow>
   count_matches_list kind
     (service_state f (js_or q (JArr [])) (js_or (get_opt q ''length'') (JNum 0)))"
  by (auto simp: count_matches_list_def get_service_state list_or_count split: jsval.splits)

lemma extractor_consistent:
  assumes "exportServiceState sys k incl w = (Inr st, w')"
  shows "count_matches_list (toLowerCase k) st"
proof -
  consider (s3) "toLowerCase k = ''s3''" | (dynamodb) "toLowerCase k = ''dynamodb''"
    | (sqs) "toLowerCase k = ''sqs''" | (sns) "toLowerCase k = ''sns''"
    | (lambda) "toLowerCase k = ''lambda''" | (other) "toLowerCase k \<notin> known_kinds"
    by (auto simp: known_kinds_def)
  then show ?thesis
  proof cases
    case s3
    with assms have "exportS3State sys incl w = (Inr st, w')"
      by (simp add: exportServiceState_def)
    from exportS3State_result [OF this] s3 show ?thesis
      by (auto simp: count_matches_counted items_field_def)
  next
    case dynamodb
    with assms have "exportDynamoDBState sys incl w = (Inr st, w')"
      by (simp add: exportServiceState_def)
    with exportDynamoDBState_result [of sys incl w] dynamodb show ?thesis
      by (auto simp: count_matches_counted items_field_def)
  next
    case sqs
    with assms have "exportSQSState sys w = (Inr st, w')"
      by (simp add: exportServiceState_def)
    with exportSQSState_result [of sys w] sqs show ?thesis
      by (auto simp: count_matches_or items_field_def)
  next
    case sns
    with assms have "exportSNSState sys w = (Inr st, w')"
      by (simp add: exportServiceState_def)
    with exportSNSState_result [of sys w] sns show ?thesis
      by (auto simp: count_matches_or items_field_def)
  next
    case lambda
    with assms have "exportLambdaState sys w = (Inr st, w')"
      by (simp add: exportServiceState_def)
    with exportLambdaState_result [of sys w] lambda show ?thesis
      by (auto simp: count_matches_counted items_field_def)
  next
    case other
    with assms have "st = JNull"
      by (simp add: exportServiceState_def known_kinds_def Let_def io_return_apply)
    then show ?thesis
      by (simp add: count_matches_list_def)
  qed
qed

lemma set_assign: "set (assign m k v) \<subseteq> insert (k, v) (set m)"
  by (induction m k v rule: assign.induct) auto

lemma export_loop_consistent:
  assumes "io_for ks (m0, t0) (export_service_body sys incl) w = (Inr (m, t), w')"
    and "\<forall>(k, st) \<in> set m0. count_matches_list (toLowerCase k) st"
  shows "\<forall>(k, st) \<in> set m. count_matches_list (toLowerCase k) st"
  using assms
proof (induction ks arbitrary: m0 t0 w)
  case Nil
  then show ?case by (simp add: io_apply)
next
  case (Cons k ks)
  obtain r w1 where r: "exportServiceState sys k incl w = (r, w1)" by force
  show ?case
  proof (cases r)
    case (Inl e)
    with r have "export_service_body sys incl k (m0, t0) w = (Inl e, w1)"
      by (simp add: export_service_body_apply [of sys incl k "(m0, t0)" w])
    with Cons.prems show ?thesis
      by (simp add: io_bind_apply)
  next
    case (Inr st)
    from r Inr have c: "count_matches_list (toLowerCase k) st"
      using extractor_consistent by blast
    show ?thesis
    proof (cases "truthy st")
      case True
      with r Inr have "export_service_body sys incl k (m0, t0) w
          = (Inr (assign m0 k st, js_add t0 (count_or_zero st)), w1)"
        by (simp add: export_service_body_apply [of sys incl k "(m0, t0)" w])
      with Cons.prems
      have run: "io_for ks (assign m0 k st, js_add t0 (count_or_zero st)) (export_service_body sys incl) w1
              = (Inr (m, t), w')"
        by (simp add: io_bind_apply)
      have "\<forall>(k, st) \<in> set (assign m0 k st). count_matches_list (toLowerCase k) st"
        using set_assign [of m0 k st] c Cons.prems(2) by auto
      from Cons.IH [OF run this] show ?thesis .
    next
      case False
      with r Inr have "export_service_body sys incl k (m0, t0) w = (Inr (m0, t0), w1)"
        by (simp add: export_service_body_apply [of sys incl k "(m0, t0)" w])
      with Cons.prems
      have "io_for ks (m0, t0) (export_service_body sys incl) w1 = (Inr (m, t), w')"
        by (simp add: io_bind_apply)
      from Cons.IH [OF this Cons.prems(2)] show ?thesis .
    qed
  qed
qed

text \<open>
  Claim C5. A service state returned by an extractor, and so every state in the services
  mapping of an exported document, counts as many resources as its list of items is long
  whenever it holds a list; a state with a count of 2 and an empty list does not occur.
\<close>

theorem count_matches_item_list:
  "(exportServiceState sys kind incl w = (Inr st, w') \<longrightarrow> count_matches_list (toLowerCase kind) st)
   \<and> (\<forall>(k, s) \<in> set (exported_services sys options w).
         count_matches_list (toLowerCase k) s
         \<and> \<not> (get s (items_field (toLowerCase k)) = Inr (JArr [])
               \<and> get s ''resourceCount'' = Inr (JNum 2)))"
proof (intro conjI impI)
  assume "exportServiceState sys kind incl w = (Inr st, w')"
  then show "count_matches_list (toLowerCase kind) st"
    by (rule extractor_consistent)
next
  have all: "\<forall>(k, s) \<in> set (exported_services sys options w). count_matches_list (toLowerCase k) s"
  proof -
    obtain r w3 where l: "export_loop sys options (export_start sys w) = (r, w3)" by force
    show ?thesis
    proof (cases r)
      case (Inl e)
      with l show ?thesis by (simp add: exported_services_def)
    next
      case (Inr acc)
      with l have "io_for (services options) ([], JNum 0)
          (export_service_body sys (include_data options)) (export_start sys w)
            = (Inr (fst acc, snd acc), w3)"
        by (simp add: export_loop_def)
      from export_loop_consistent [OF this] l Inr show ?thesis
        by (simp add: exported_services_def)
    qed
  qed
  show "\<forall>(k, s) \<in> set (exported_services sys options w).
         count_matches_list (toLowerCase k) s
         \<and> \<not> (get s (items_field (toLowerCase k)) = Inr (JArr [])
               \<and> get s ''resourceCount'' = Inr (JNum 2))"
    using all by (auto simp: count_matches_list_def)
qed

theorem count_matches_item_list_witness:
  "exportServiceState sample_env ''SQS'' True empty_world
     = (Inr (service_state ''queues'' (JArr [JStr ''http://localhost:4566/000000000000/jobs'']) (JNum 1)),
        \<lparr>env = [], calls = [HttpCall sqs_listing]\<rparr>)
   \<and> count_matches_list (toLowerCase ''SQS'')
        (service_state ''queues'' (JArr [JStr ''http://localhost:4566/000000000000/jobs'']) (JNum 1))
   \<and> (''SQS'', service_state ''queues'' (JArr [JStr ''http://localhost:4566/000000000000/jobs'']) (JNum 1))
        \<in> set (exported_services sample_env sample_options empty_world)
   \<and> \<not> (get (service_state ''queues'' (JArr [JStr ''http://localhost:4566/000000000000/jobs'']) (JNum 1))
             (items_field (toLowerCase ''SQS'')) = Inr (JArr [])
         \<and> get (service_state ''queues'' (JArr [JStr ''http://localhost:4566/000000000000/jobs'']) (JNum 1))
             ''resourceCount'' = Inr (JNum 2))"
proof -
  have run: "exportServiceState sample_env ''SQS'' True empty_world
     = (Inr (service_state ''queues'' (JArr [JStr ''http://localhost:4566/000000000000/jobs'']) (JNum 1)),
        \<lparr>env = [], calls = [HttpCall sqs_listing]\<rparr>)"
    by code_simp
  have mem: "(''SQS'', service_state ''queues'' (JArr [JStr ''http://localhost:4566/000000000000/jobs'']) (JNum 1))
        \<in> set (exported_services sample_env sample_options empty_world)"
    by code_simp
  show ?thesis
    using run mem
      count_matches_item_list [of sample_env "''SQS''" True empty_world
        "service_state ''queues'' (JArr [JStr ''http://localhost:4566/000000000000/jobs'']) (JNum 1)"
        "\<lparr>env = [], calls = [HttpCall sqs_listing]\<rparr>" sample_options]
    by blast
qed

section \<open>Round trip of buckets\<close>

lemma s3_create_ok:
  assumes put: "\<forall>req x. meth req = ''PUT'' \<longrightarrow> (\<exists>r. fst (http sys req x) = Inr r)"
    and b: "\<not> nullish b"
  shows "\<exists>w'. s3_create_body sys b acc w = (Inr (fst acc + 1, snd acc), w')"
proof -
  have "meth (localstack_request ''PUT'' (''/'' @ toString (get_opt b ''name'')) [] JUndefined) = ''PUT''"
    by (simp add: localstack_request_def)
  with put obtain r where
    "fst (http sys (localstack_request ''PUT'' (''/'' @ toString (get_opt b ''name'')) [] JUndefined) (env w)) = Inr r"
    by blast
  then show ?thesis
    using b by (simp add: s3_create_body_def create_bucket_def get_not_nullish io_apply makeLocalStackRequest_def axios_apply)
qed

lemma s3_create_all:
  assumes put: "\<forall>req x. meth req = ''PUT'' \<longrightarrow> (\<exists>r. fst (http sys req x) = Inr r)"
    and bs: "\<forall>b\<in>set bs. \<not> nullish b"
  shows "\<exists>w'. io_for bs (i, k) (s3_create_body sys) w = (Inr (i + int (length bs), k), w')"
  using bs
proof (induction bs arbitrary: i w)
  case Nil
  show ?case by (simp add: io_apply)
next
  case (Cons b bs)
  from s3_create_ok [OF put, of b "(i, k)" w] Cons.prems obtain w1 where
    "s3_create_body sys b (i, k) w = (Inr (i + 1, k), w1)" by auto
  moreover from Cons.IH [of "i + 1" w1] Cons.prems obtain w2 where
    "io_for bs (i + 1, k) (s3_create_body sys) w1 = (Inr (i + 1 + int (length bs), k), w2)" by auto
  ultimately show ?case by (simp add: io_apply add.assoc)
qed

lemma exportS3State_ok:
  assumes d: "fst (http sys s3_listing (env w)) = Inr d" "\<not> nullish d"
    and bs: "\<forall>b\<in>set (listed_buckets d). \<not> nullish b"
  shows "\<exists>xs w'. exportS3State sys incl w
            = (Inr (service_state ''buckets'' (JArr xs) (JNum (int (length xs)))), w')
          \<and> length xs = length (listed_buckets d) \<and> (\<forall>x\<in>set xs. \<not> nullish x)"
proof -
  define w1 where "w1 = after_call sys s3_listing w"
  have r: "makeLocalStackRequest sys ''GET'' ''/'' [] JUndefined w = (Inr d, w1)"
    using d(1) by (simp add: makeLocalStackRequest_def axios_apply s3_listing_def w1_def after_call_def)
  define B where "B = get_opt (get_opt (get_opt d ''ListAllMyBucketsResult'') ''Buckets'') ''Bucket''"
  have l: "get d ''ListAllMyBucketsResult'' = Inr (get_opt d ''ListAllMyBucketsResult'')"
    using d(2) by (rule get_not_nullish)
  show ?thesis
  proof (cases "truthy B")
    case False
    with r l have "exportS3State sys incl w = (Inr (service_state ''buckets'' (JArr []) (JNum 0)), w1)"
      by (simp add: exportS3State_def io_apply B_def Let_def)
    moreover from False have "listed_buckets d = []"
      by (simp add: listed_buckets_def B_def)
    ultimately show ?thesis
      by (intro exI [of _ "[]"] exI [of _ w1]) simp
  next
    case True
    then have lb: "listed_buckets d = as_array B"
      by (simp add: listed_buckets_def B_def)
    have "\<exists>acc w2. io_for (as_array B) ([], 0) (s3_bucket_body sys incl) w1 = (Inr acc, w2)"
    proof (rule counting_loop_ok)
      fix x acc w
      assume "x \<in> set (as_array B)"
      with bs lb have "\<not> nullish x" by simp
      then show "\<exists>acc' w'. s3_bucket_body sys incl x acc w = (Inr acc', w')"
        by (rule s3_bucket_body_ok)
    qed
    then obtain acc w2 where run: "io_for (as_array B) ([], 0) (s3_bucket_body sys incl) w1 = (Inr acc, w2)"
      by blast
    have "\<exists>ys. fst acc = fst ([] :: jsval list, 0 :: int) @ ys \<and> length ys = length (as_array B)
        \<and> (\<forall>y\<in>set ys. \<not> nullish y)
        \<and> snd acc = snd ([] :: jsval list, 0 :: int) + int (length (as_array B))"
    proof (rule counting_loop [where step = "s3_bucket_body sys incl"])
      show "\<And>x acc w acc' w'. s3_bucket_body sys incl x acc w = (Inr acc', w') \<Longrightarrow>
          \<exists>y. \<not> nullish y \<and> acc' = (fst acc @ [y], snd acc + 1)"
        by (rule s3_bucket_body_result)
      show "io_for (as_array B) ([], 0) (s3_bucket_body sys incl) w1 = (Inr acc, w2)"
        by (rule run)
    qed
    then have acc: "length (fst acc) = length (as_array B)" "\<forall>y\<in>set (fst acc). \<not> nullish y"
      "snd acc = int (length (fst acc))"
      by auto
    from r l True run have "exportS3State sys incl w
        = (Inr (service_state ''buckets'' (JArr (fst acc)) (JNum (snd acc))), w2)"
      by (simp add: exportS3State_def io_apply B_def Let_def)
    with acc lb show ?thesis
      by (intro exI [of _ "fst acc"] exI [of _ w2]) simp
  qed
qed

text \<open>The document of an export, and what the program writes to the file.\<close>

lemma performStateExport_document:
  "performStateExport sys options w
     = io_bind (export_loop sys options)
         (\<lambda>acc. write_snapshot sys (export_path options (fst (toISOString sys (env w)))) (services options)
                   (stateData (export_stamp sys w) (export_version sys w) (services options)
                      (fst acc) (snd acc)) (snd acc))
         (export_start sys w)"
proof -
  define w1 where "w1 = snd (date_now sys w)"
  define w2 where "w2 = snd (date_now sys w1)"
  obtain v where v: "getLocalStackVersion sys w2 = (Inr v, after_call sys (health_request None) w2)"
    using getLocalStackVersion_apply by blast
  then have st: "export_start sys w = after_call sys (health_request None) w2"
    by (simp add: export_start_def w1_def w2_def)
  from v have ver: "export_version sys w = v"
    by (simp add: export_version_def w1_def w2_def)
  have stamp: "export_stamp sys w = fst (toISOString sys (env w1))"
    by (simp add: export_stamp_def w1_def)
  show ?thesis
    using v unfolding st ver stamp
    by (simp add: performStateExport_def io_bind_apply [of "date_now sys"]
         io_bind_apply [of "getLocalStackVersion sys"] date_now_apply w1_def w2_def)
qed

lemma export_success_document:
  assumes "performStateExport sys options w = (Inr (p, s), w1)"
  shows "export_document sys options w
           = stateData (export_stamp sys w) (export_version sys w) (services options)
               (exported_services sys options w) (totalResources s)"
    and "FileWrite p (stringify sys (export_document sys options w)) \<in> set (calls w1)"
proof -
  obtain r w3 where l: "export_loop sys options (export_start sys w) = (r, w3)" by force
  from assms l obtain acc where r: "r = Inr acc"
    by (cases r) (auto simp: performStateExport_document io_bind_apply)
  from assms l r have
    ws: "write_snapshot sys (export_path options (fst (toISOString sys (env w)))) (services options)
          (stateData (export_stamp sys w) (export_version sys w) (services options) (fst acc) (snd acc))
          (snd acc) w3 = (Inr (p, s), w1)"
    by (simp add: performStateExport_document io_bind_apply)
  note wr = write_snapshot_result [OF ws]
  have doc: "export_document sys options w
      = stateData (export_stamp sys w) (export_version sys w) (services options) (fst acc) (snd acc)"
    by (simp add: export_document_def l r)
  show "export_document sys options w
           = stateData (export_stamp sys w) (export_version sys w) (services options)
               (exported_services sys options w) (totalResources s)"
    using wr by (simp add: doc exported_services_def l r)
  show "FileWrite p (stringify sys (export_document sys options w)) \<in> set (calls w1)"
    using wr by (simp add: doc)
qed

text \<open>Whatever holds of every state an extractor returns holds of every exported state.\<close>

lemma export_loop_invariant:
  assumes ex: "\<And>k w st w'. exportServiceState sys k incl w = (Inr st, w') \<Longrightarrow> P k st"
    and run: "io_for ks (m0, t0) (export_service_body sys incl) w = (Inr (m, t), w')"
    and m0: "\<forall>(k, st) \<in> set m0. P k st"
  shows "\<forall>(k, st) \<in> set m. P k st"
  using run m0
proof (induction ks arbitrary: m0 t0 w)
  case Nil
  then show ?case by (simp add: io_apply)
next
  case (Cons k ks)
  obtain r w1 where r: "exportServiceState sys k incl w = (r, w1)" by force
  show ?case
  proof (cases r)
    case (Inl e)
    with r have "export_service_body sys incl k (m0, t0) w = (Inl e, w1)"
      by (simp add: export_service_body_apply [of sys incl k "(m0, t0)" w])
    with Cons.prems show ?thesis
      by (simp add: io_bind_apply)
  next
    case (Inr st)
    from r Inr have c: "P k st"
      using ex by blast
    show ?thesis
    proof (cases "truthy st")
      case True
      with r Inr have "export_service_body sys incl k (m0, t0) w
          = (Inr (assign m0 k st, js_add t0 (count_or_zero st)), w1)"
        by (simp add: export_service_body_apply [of sys incl k "(m0, t0)" w])
      with Cons.prems
      have run: "io_for ks (assign m0 k st, js_add t0 (count_or_zero st)) (export_service_body sys incl) w1
              = (Inr (m, t), w')"
        by (simp add: io_bind_apply)
      have "\<forall>(k, st) \<in> set (assign m0 k st). P k st"
        using set_assign [of m0 k st] c Cons.prems(2) by auto
      from Cons.IH [OF run this] show ?thesis .
    next
      case False
      with r Inr have "export_service_body sys incl k (m0, t0) w = (Inr (m0, t0), w1)"
        by (simp add: export_service_body_apply [of sys incl k "(m0, t0)" w])
      with Cons.prems
      have "io_for ks (m0, t0) (export_service_body sys incl) w1 = (Inr (m, t), w')"
        by (simp add: io_bind_apply)
      from Cons.IH [OF this Cons.prems(2)] show ?thesis .
    qed
  qed
qed

lemma extractor_bucket_state:
  assumes "exportServiceState sys k incl w = (Inr st, w')"
  shows "toLowerCase k = ''s3'' \<longrightarrow> bucket_state st"
proof
  assume s3: "toLowerCase k = ''s3''"
  with assms have "exportS3State sys incl w = (Inr st, w')"
    by (simp add: exportServiceState_def)
  from exportS3State_result [OF this] show "bucket_state st"
    by (auto simp: bucket_state_def get_service_state list_all_iff)
qed

lemma exported_bucket_states:
  "\<forall>(k, st) \<in> set (exported_services sys options w). toLowerCase k = ''s3'' \<longrightarrow> bucket_state st"
proof -
  obtain r w3 where l: "export_loop sys options (export_start sys w) = (r, w3)" by force
  show ?thesis
  proof (cases r)
    case (Inl e)
    with l show ?thesis by (simp add: exported_services_def)
  next
    case (Inr acc)
    with l have run: "io_for (services options) ([], JNum 0)
        (export_service_body sys (include_data options)) (export_start sys w)
          = (Inr (fst acc, snd acc), w3)"
      by (simp add: export_loop_def)
    have "\<forall>(k, st) \<in> set (fst acc). toLowerCase k = ''s3'' \<longrightarrow> bucket_state st"
    proof (rule export_loop_invariant [where P = "\<lambda>k st. toLowerCase k = ''s3'' \<longrightarrow> bucket_state st",
            OF _ run])
      fix k w st w'
      assume "exportServiceState sys k (include_data options) w = (Inr st, w')"
      then show "toLowerCase k = ''s3'' \<longrightarrow> bucket_state st"
        by (rule extractor_bucket_state)
    qed simp
    with l Inr show ?thesis
      by (simp add: exported_services_def)
  qed
qed

text \<open>The import of a document that holds buckets only.\<close>

lemma validate_ok:
  assumes "\<forall>x. \<exists>r. fst (http sys (health_request (Some 5000)) x) = Inr r"
  shows "validateLocalStackConnectivity sys w = (Inr (), after_call sys (health_request (Some 5000)) w)"
proof -
  from assms obtain r where "fst (http sys (health_request (Some 5000)) (env w)) = Inr r" by blast
  then show ?thesis
    by (simp add: validateLocalStackConnectivity_def io_apply axios_apply after_call_def)
qed

lemma import_bucket_state:
  assumes put: "\<forall>req x. meth req = ''PUT'' \<longrightarrow> (\<exists>r. fst (http sys req x) = Inr r)"
    and st: "bucket_state st"
  shows "\<exists>w'. importS3State sys st w
           = (Inr \<lparr>imported = (case resources_listed st ''buckets'' of None \<Rightarrow> 0
                                 | Some bs \<Rightarrow> int (length bs)),
                   skipped = JNum 0\<rparr>, w')"
proof -
  from st obtain bs where g: "get st ''buckets'' = Inr (JArr bs)" and bs: "\<forall>b\<in>set bs. \<not> nullish b"
    by (auto simp: bucket_state_def list_all_iff split: sum.splits jsval.splits)
  from s3_create_all [OF put bs, of 0 0 w] obtain w' where
    "io_for bs (0, 0) (s3_create_body sys) w = (Inr (int (length bs), 0), w')" by auto
  with g show ?thesis
    by (simp add: importS3State_def resources_listed_def js_or_def io_apply)
qed

lemma import_nothing_listed:
  assumes "resources_listed st f = Some []"
  shows "f = ''tables'' \<Longrightarrow> importDynamoDBState sys st w = (Inr \<lparr>imported = 0, skipped = JNum 0\<rparr>, w)"
    and "f = ''topics'' \<Longrightarrow> importSNSState sys st w = (Inr \<lparr>imported = 0, skipped = JNum 0\<rparr>, w)"
    and "f = ''functions'' \<Longrightarrow> importLambdaState sys st w = (Inr \<lparr>imported = 0, skipped = JNum 0\<rparr>, w)"
    and "f = ''queues'' \<Longrightarrow> importSQSState sys st w = (Inr \<lparr>imported = 0, skipped = JNum 0\<rparr>, w)"
  using assms
  by (auto simp: importDynamoDBState_def importSNSState_def importLambdaState_def importSQSState_def
      io_apply elim!: resources_listed_cases)

lemma import_entry:
  assumes put: "\<forall>req x. meth req = ''PUT'' \<longrightarrow> (\<exists>r. fst (http sys req x) = Inr r)"
    and b: "toLowerCase k = ''s3'' \<longrightarrow> bucket_state st"
    and e: "toLowerCase k = ''s3'' \<or> resources_listed st (items_field (toLowerCase k)) = Some []"
  shows "\<exists>w'. importServiceState sys k st w
           = (Inr \<lparr>imported = entry_buckets (k, st), skipped = JNum 0\<rparr>, w')"
proof -
  consider (s3) "toLowerCase k = ''s3''" | (dynamodb) "toLowerCase k = ''dynamodb''"
    | (sqs) "toLowerCase k = ''sqs''" | (sns) "toLowerCase k = ''sns''"
    | (lambda) "toLowerCase k = ''lambda''" | (other) "toLowerCase k \<notin> known_kinds"
    by (auto simp: known_kinds_def)
  then show ?thesis
  proof cases
    case s3
    with b have "bucket_state st" by simp
    from import_bucket_state [OF put this, of w] s3 show ?thesis
      by (simp add: importServiceState_def entry_buckets_def)
  next
    case dynamodb
    with e have "resources_listed st ''tables'' = Some []"
      by (simp add: items_field_def)
    from import_nothing_listed(1) [OF this refl, of sys w] dynamodb show ?thesis
      by (simp add: importServiceState_def entry_buckets_def)
  next
    case sqs
    with e have "resources_listed st ''queues'' = Some []"
      by (simp add: items_field_def)
    from import_nothing_listed(4) [OF this refl, of sys w] sqs show ?thesis
      by (simp add: importServiceState_def entry_buckets_def)
  next
    case sns
    with e have "resources_listed st ''topics'' = Some []"
      by (simp add: items_field_def)
    from import_nothing_listed(2) [OF this refl, of sys w] sns show ?thesis
      by (simp add: importServiceState_def entry_buckets_def)
  next
    case lambda
    with e have "resources_listed st ''functions'' = Some []"
      by (simp add: items_field_def)
    from import_nothing_listed(3) [OF this refl, of sys w] lambda show ?thesis
      by (simp add: importServiceState_def entry_buckets_def)
  next
    case other
    then show ?thesis
      by (simp add: importServiceState_def entry_buckets_def known_kinds_def Let_def io_return_apply)
  qed
qed

lemma import_loop:
  assumes put: "\<forall>req x. meth req = ''PUT'' \<longrightarrow> (\<exists>r. fst (http sys req x) = Inr r)"
    and es: "\<forall>(k, st) \<in> set es. (toLowerCase k = ''s3'' \<longrightarrow> bucket_state st)
               \<and> (toLowerCase k = ''s3'' \<or> resources_listed st (items_field (toLowerCase k)) = Some [])"
    and z: "skippedResources summ = JNum 0"
  shows "\<exists>summ' w'. io_for es summ (import_service_body sys) w = (Inr summ', w')
           \<and> importedResources summ' = importedResources summ + sum_list (map entry_buckets es)
           \<and> skippedResources summ' = JNum 0 \<and> errors summ' = errors summ"
  using es z
proof (induction es arbitrary: summ w)
  case Nil
  then show ?case by (simp add: io_apply)
next
  case (Cons e es)
  obtain k st where e: "e = (k, st)" by force
  with Cons.prems have "toLowerCase k = ''s3'' \<longrightarrow> bucket_state st"
    "toLowerCase k = ''s3'' \<or> resources_listed st (items_field (toLowerCase k)) = Some []"
    by auto
  from import_entry [OF put this, of w] obtain w1 where
    i: "importServiceState sys k st w = (Inr \<lparr>imported = entry_buckets (k, st), skipped = JNum 0\<rparr>, w1)"
    by blast
  define s1 where "s1 = summ\<lparr>importedResources := importedResources summ + entry_buckets (k, st),
      skippedResources := js_add (skippedResources summ) (JNum 0)\<rparr>"
  from i have step: "import_service_body sys e summ w = (Inr s1, w1)"
    by (simp add: import_service_body_def e io_apply s1_def)
  have z1: "skippedResources s1 = JNum 0"
    using Cons.prems(2) by (simp add: s1_def)
  from Cons.IH [of s1 w1] Cons.prems(1) z1 obtain s2 w2 where
    "io_for es s1 (import_service_body sys) w1 = (Inr s2, w2)"
    "importedResources s2 = importedResources s1 + sum_list (map entry_buckets es)"
    "skippedResources s2 = JNum 0" "errors s2 = errors s1"
    by auto
  with step e show ?case
    by (simp add: io_bind_apply s1_def)
qed

text \<open>The total of an export whose kinds are distinct.\<close>

lemma assign_new: "k \<notin> fst ` set m \<Longrightarrow> assign m k v = m @ [(k, v)]"
  by (induction m k v rule: assign.induct) auto

lemma produced_keys: "fst ` set (produced_states sys incl ks w) \<subseteq> set ks"
proof (induction ks arbitrary: w)
  case Nil
  show ?case by simp
next
  case (Cons k ks)
  obtain r w1 where r: "exportServiceState sys k incl w = (r, w1)" by force
  show ?case
    using Cons.IH [of w1] r by (cases r) auto
qed

lemma export_loop_distinct:
  assumes "io_for ks (m0, t0) (export_service_body sys incl) w = (Inr (m, t), w')"
    and "distinct ks" and "set ks \<inter> fst ` set m0 = {}"
  shows "m = m0 @ produced_states sys incl ks w"
  using assms
proof (induction ks arbitrary: m0 t0 w)
  case Nil
  then show ?case by (simp add: io_apply)
next
  case (Cons k ks)
  obtain r w1 where r: "exportServiceState sys k incl w = (r, w1)" by force
  show ?case
  proof (cases r)
    case (Inl e)
    with r have "export_service_body sys incl k (m0, t0) w = (Inl e, w1)"
      by (simp add: export_service_body_apply [of sys incl k "(m0, t0)" w])
    with Cons.prems show ?thesis
      by (simp add: io_bind_apply)
  next
    case (Inr st)
    show ?thesis
    proof (cases "truthy st")
      case True
      from Cons.prems have new: "k \<notin> fst ` set m0" by auto
      from r Inr True have "export_service_body sys incl k (m0, t0) w
          = (Inr (m0 @ [(k, st)], js_add t0 (count_or_zero st)), w1)"
        by (simp add: export_service_body_apply [of sys incl k "(m0, t0)" w] assign_new [OF new])
      with Cons.prems
      have run: "io_for ks (m0 @ [(k, st)], js_add t0 (count_or_zero st)) (export_service_body sys incl) w1
              = (Inr (m, t), w')"
        by (simp add: io_bind_apply)
      have "set ks \<inter> fst ` set (m0 @ [(k, st)]) = {}"
        using Cons.prems by auto
      from Cons.IH [OF run _ this] Cons.prems r Inr True show ?thesis
        by simp
    next
      case False
      with r Inr have "export_service_body sys incl k (m0, t0) w = (Inr (m0, t0), w1)"
        by (simp add: export_service_body_apply [of sys incl k "(m0, t0)" w])
      with Cons.prems
      have "io_for ks (m0, t0) (export_service_body sys incl) w1 = (Inr (m, t), w')"
        by (simp add: io_bind_apply)
      from Cons.IH [OF this] Cons.prems r Inr False show ?thesis
        by auto
    qed
  qed
qed

text \<open>The shape of every state an extractor returns.\<close>

lemma extractor_state_shape:
  assumes "exportServiceState sys k incl w = (Inr st, w')" "truthy st"
  shows "\<exists>xs n. st = service_state (items_field (toLowerCase k)) xs n \<and> \<not> nullish xs
           \<and> (\<forall>ys. xs = JArr ys \<longrightarrow> n = JNum (int (length ys)))"
proof -
  have or_shape: "\<not> nullish (js_or q (JArr []))
      \<and> (\<forall>ys. js_or q (JArr []) = JArr ys \<longrightarrow> js_or (get_opt q ''length'') (JNum 0) = JNum (int (length ys)))"
    for q
    using list_or_count [of q] by (cases q) (auto simp: js_or_def)
  consider (s3) "toLowerCase k = ''s3''" | (dynamodb) "toLowerCase k = ''dynamodb''"
    | (sqs) "toLowerCase k = ''sqs''" | (sns) "toLowerCase k = ''sns''"
    | (lambda) "toLowerCase k = ''lambda''" | (other) "toLowerCase k \<notin> known_kinds"
    by (auto simp: known_kinds_def)
  then show ?thesis
  proof cases
    case s3
    with assms have "exportS3State sys incl w = (Inr st, w')"
      by (simp add: exportServiceState_def)
    from exportS3State_result [OF this] obtain bs where
      "st = service_state ''buckets'' (JArr bs) (JNum (int (length bs)))" by blast
    with s3 show ?thesis
      by (intro exI [of _ "JArr bs"] exI [of _ "JNum (int (length bs))"]) (simp add: items_field_def)
  next
    case dynamodb
    with assms have "exportDynamoDBState sys incl w = (Inr st, w')"
      by (simp add: exportServiceState_def)
    with exportDynamoDBState_result [of sys incl w] obtain ts where
      "st = service_state ''tables'' (JArr ts) (JNum (int (length ts)))" by auto
    with dynamodb show ?thesis
      by (intro exI [of _ "JArr ts"] exI [of _ "JNum (int (length ts))"]) (simp add: items_field_def)
  next
    case sqs
    with assms have "exportSQSState sys w = (Inr st, w')"
      by (simp add: exportServiceState_def)
    with exportSQSState_result [of sys w] obtain q where
      "st = service_state ''queues'' (js_or q (JArr [])) (js_or (get_opt q ''length'') (JNum 0))" by auto
    with sqs or_shape [of q] show ?thesis
      by (intro exI [of _ "js_or q (JArr [])"] exI [of _ "js_or (get_opt q ''length'') (JNum 0)"])
         (simp add: items_field_def)
  next
    case sns
    with assms have "exportSNSState sys w = (Inr st, w')"
      by (simp add: exportServiceState_def)
    with exportSNSState_result [of sys w] obtain q where
      "st = service_state ''topics'' (js_or q (JArr [])) (js_or (get_opt q ''length'') (JNum 0))" by auto
    with sns or_shape [of q] show ?thesis
      by (intro exI [of _ "js_or q (JArr [])"] exI [of _ "js_or (get_opt q ''length'') (JNum 0)"])
         (simp add: items_field_def)
  next
    case lambda
    with assms have "exportLambdaState sys w = (Inr st, w')"
      by (simp add: exportServiceState_def)
    with exportLambdaState_result [of sys w] obtain xs where
      "st = service_state ''functions'' (JArr xs) (JNum (int (length xs)))" by auto
    with lambda show ?thesis
      by (intro exI [of _ "JArr xs"] exI [of _ "JNum (int (length xs))"]) (simp add: items_field_def)
  next
    case other
    with assms(1) have "st = JNull"
      by (simp add: exportServiceState_def known_kinds_def Let_def io_return_apply)
    with assms(2) show ?thesis by simp
  qed
qed

lemma items_field_not_count: "toLowerCase k \<in> known_kinds \<Longrightarrow> items_field (toLowerCase k) \<noteq> ''resourceCount''"
  by (auto simp: known_kinds_def items_field_def)

lemma shaped_count:
  assumes sh: "st = service_state (items_field (toLowerCase k)) xs n" "\<not> nullish xs"
      "\<forall>ys. xs = JArr ys \<longrightarrow> n = JNum (int (length ys))"
    and kn: "toLowerCase k \<in> known_kinds"
    and only: "toLowerCase k = ''s3'' \<or> resources_listed st (items_field (toLowerCase k)) = Some []"
    and b: "toLowerCase k = ''s3'' \<longrightarrow> bucket_state st"
  shows "count_or_zero st = JNum (entry_buckets (k, st))"
proof -
  note f = items_field_not_count [OF kn]
  have gi: "get st (items_field (toLowerCase k)) = Inr xs"
    and gc: "get st ''resourceCount'' = Inr n"
    using sh(1) f by (simp_all add: get_service_state)
  have co: "count_or_zero st = js_or n (JNum 0)"
    using gc sh(1) by (simp add: count_or_zero_def get_opt_def service_state_def)
  show ?thesis
  proof (cases "toLowerCase k = ''s3''")
    case True
    with b have "bucket_state st" by simp
    with gi True obtain bs where xs: "xs = JArr bs"
      by (auto simp: bucket_state_def items_field_def split: jsval.splits)
    with sh(3) have "n = JNum (int (length bs))" by simp
    with co xs gi True show ?thesis
      by (simp add: entry_buckets_def resources_listed_def items_field_def js_or_def)
  next
    case False
    with only have "resources_listed st (items_field (toLowerCase k)) = Some []" by simp
    with gi sh(2) have "xs = JArr []"
      by (cases xs) (auto simp: resources_listed_def)
    with sh(3) have "n = JNum 0" by simp
    with co False show ?thesis
      by (simp add: entry_buckets_def js_or_def)
  qed
qed

lemma foldl_entry_buckets:
  "\<forall>e\<in>set P. count_or_zero (snd e) = JNum (entry_buckets e) \<Longrightarrow>
   foldl js_add (JNum a) (map (count_or_zero \<circ> snd) P) = JNum (a + sum_list (map entry_buckets P))"
  by (induction P arbitrary: a) (auto simp: add.assoc)

lemma produced_by_extractor:
  "(k, st) \<in> set (produced_states sys incl ks w) \<Longrightarrow>
     \<exists>w0 w'. exportServiceState sys k incl w0 = (Inr st, w') \<and> truthy st"
proof (induction ks arbitrary: w)
  case Nil
  then show ?case by simp
next
  case (Cons a ks)
  obtain r w1 where r: "exportServiceState sys a incl w = (r, w1)" by force
  show ?case
  proof (cases r)
    case (Inl e)
    with Cons.prems r show ?thesis by simp
  next
    case (Inr s)
    from Cons.prems r Inr have "(k = a \<and> st = s \<and> truthy s) \<or> (k, st) \<in> set (produced_states sys incl ks w1)"
      by (auto split: if_splits)
    then show ?thesis
    proof
      assume "k = a \<and> st = s \<and> truthy s"
      with r Inr show ?thesis by blast
    next
      assume "(k, st) \<in> set (produced_states sys incl ks w1)"
      then show ?thesis by (rule Cons.IH)
    qed
  qed
qed

lemma export_success_loop:
  assumes "performStateExport sys options w = (Inr (p, s), w1)"
  shows "\<exists>w3. io_for (services options) ([], JNum 0)
            (export_service_body sys (include_data options)) (export_start sys w)
          = (Inr (exported_services sys options w, totalResources s), w3)"
proof -
  obtain r w3 where l: "export_loop sys options (export_start sys w) = (r, w3)" by force
  from assms l obtain acc where r: "r = Inr acc"
    by (cases r) (auto simp: performStateExport_document io_bind_apply)
  from assms l r have
    ws: "write_snapshot sys (export_path options (fst (toISOString sys (env w)))) (services options)
          (stateData (export_stamp sys w) (export_version sys w) (services options) (fst acc) (snd acc))
          (snd acc) w3 = (Inr (p, s), w1)"
    by (simp add: performStateExport_document io_bind_apply)
  note wr = write_snapshot_result [OF ws]
  from l r wr show ?thesis
    by (intro exI [of _ w3]) (simp add: export_loop_def exported_services_def)
qed

lemma distinct_total:
  assumes pe: "performStateExport sys options w = (Inr (p, s), w1)"
    and only: "only_buckets (exported_services sys options w)"
    and dist: "distinct (services options)"
  shows "totalResources s = JNum (exported_bucket_count (exported_services sys options w))"
proof -
  define m where "m = exported_services sys options w"
  define P where "P = produced_states sys (include_data options) (services options) (export_start sys w)"
  from export_success_loop [OF pe] obtain w3 where
    run: "io_for (services options) ([], JNum 0)
            (export_service_body sys (include_data options)) (export_start sys w)
          = (Inr (m, totalResources s), w3)"
    by (auto simp: m_def)
  from export_loop_distinct [OF run dist] have mP: "m = P"
    by (simp add: P_def)
  from export_loop_produced [OF run]
  have t: "totalResources s = foldl js_add (JNum 0) (map (count_or_zero \<circ> snd) P)"
    by (simp add: P_def)
  have "\<forall>e\<in>set P. count_or_zero (snd e) = JNum (entry_buckets e)"
  proof
    fix e
    assume e: "e \<in> set P"
    obtain k st where ks: "e = (k, st)" by force
    with e have mem: "(k, st) \<in> set (produced_states sys (include_data options) (services options) (export_start sys w))"
      by (simp add: P_def)
    from produced_known [OF mem] have kn: "toLowerCase k \<in> known_kinds" .
    from produced_by_extractor [OF mem] obtain w0 w' where
      ex: "exportServiceState sys k (include_data options) w0 = (Inr st, w')" and tr: "truthy st"
      by blast
    from extractor_state_shape [OF ex tr] obtain xs n where
      sh: "st = service_state (items_field (toLowerCase k)) xs n" "\<not> nullish xs"
        "\<forall>ys. xs = JArr ys \<longrightarrow> n = JNum (int (length ys))"
      by blast
    from only e ks mP have o: "toLowerCase k = ''s3'' \<or> resources_listed st (items_field (toLowerCase k)) = Some []"
      by (auto simp: only_buckets_def m_def list_all_iff)
    from extractor_bucket_state [OF ex] have b: "toLowerCase k = ''s3'' \<longrightarrow> bucket_state st" .
    from shaped_count [OF sh kn o b] ks show "count_or_zero (snd e) = JNum (entry_buckets e)"
      by simp
  qed
  from foldl_entry_buckets [OF this, of 0] t mP show ?thesis
    by (simp add: exported_bucket_count_def m_def)
qed

text \<open>
  Claim C9. An export that succeeds writes the text of its document to the file. When that
  document holds buckets only, every other state in it listing nothing, and the importing
  side reads that text from the file and parses it into the document written, an import
  into an emulator that is healthy and creates every bucket asked for succeeds: it imports
  as many resources as the document holds buckets, skips none and records no error. When
  the kinds requested are distinct that number is the total of the export summary.
\<close>

theorem export_import_round_trip:
  assumes ex: "exportState sys options w = (ExportSuccess p s, w1)"
    and only: "only_buckets (exported_services sys options w)"
    and rf: "fst (readFile fresh p (env w2)) = Inr (stringify sys (export_document sys options w))"
    and yaml: "parse fresh (stringify sys (export_document sys options w))
                 = Inr (export_document sys options w)"
    and health: "\<forall>x. \<exists>r. fst (http fresh (health_request (Some 5000)) x) = Inr r"
    and put: "\<forall>req x. meth req = ''PUT'' \<longrightarrow> (\<exists>r. fst (http fresh req x) = Inr r)"
  shows "\<exists>summary recs w3.
           importState fresh p w2 = (ImportSuccess summary recs, w3)
           \<and> importedResources summary = exported_bucket_count (exported_services sys options w)
           \<and> skippedResources summary = JNum 0
           \<and> errors summary = []
           \<and> FileWrite p (stringify sys (export_document sys options w)) \<in> set (calls w1)
           \<and> (distinct (services options) \<longrightarrow> totalResources s = JNum (importedResources summary))"
proof -
  from ex have pe: "performStateExport sys options w = (Inr (p, s), w1)"
    by (auto simp: exportState_def split: prod.splits sum.splits)
  note doc = export_success_document [OF pe]
  define m where "m = exported_services sys options w"
  define d where "d = export_document sys options w"
  have d: "d = stateData (export_stamp sys w) (export_version sys w) (services options) m (totalResources s)"
    using doc(1) by (simp add: d_def m_def)
  have good: "\<forall>(k, st) \<in> set m. (toLowerCase k = ''s3'' \<longrightarrow> bucket_state st)
               \<and> (toLowerCase k = ''s3'' \<or> resources_listed st (items_field (toLowerCase k)) = Some [])"
    using only exported_bucket_states [of sys options w]
    by (auto simp: only_buckets_def m_def list_all_iff)
  define wa where "wa = \<lparr>env = snd (readFile fresh p (env w2)), calls = calls w2 @ [FileRead p]\<rparr>"
  have rd: "fs_readFile fresh p w2 = (Inr (stringify sys d), wa)"
    using rf by (simp add: fs_readFile_apply wa_def d_def)
  have pr: "yaml_parse fresh (stringify sys d) = Inr d"
    using yaml by (simp add: yaml_parse_def d_def)
  define wb where "wb = after_call fresh (health_request (Some 5000)) wa"
  have va: "validateLocalStackConnectivity fresh wa = (Inr (), wb)"
    using validate_ok [OF health] by (simp add: wb_def)
  define s0 where "s0 = \<lparr>version = JStr ''1.0'', originalTimestamp = JStr (export_stamp sys w),
      servicesFound = map fst m, statedResources = totalResources s, importedResources = 0,
      skippedResources = JNum 0, errors = []\<rparr>"
  from import_loop [OF put good, of s0 wb] obtain s1 w3 where
    lp: "io_for m s0 (import_service_body fresh) wb = (Inr s1, w3)"
    and s1: "importedResources s1 = sum_list (map entry_buckets m)"
      "skippedResources s1 = JNum 0" "errors s1 = []"
    by (auto simp: s0_def)
  have g: "get d ''version'' = Inr (JStr ''1.0'')"
    "get d ''timestamp'' = Inr (JStr (export_stamp sys w))"
    "get d ''services'' = Inr (JObj m)"
    "get d ''metadata'' = Inr (JObj [(''localstackVersion'', export_version sys w),
       (''exportedServices'', JArr (map JStr (services options))),
       (''totalResources'', totalResources s)])"
    by (simp_all add: d stateData_def)
  have "performStateImport fresh p w2
      = (Inr (s1, generateImportRecommendations fresh s1 (JStr ''1.0'')), w3)"
    using lp
    by (simp add: performStateImport_def io_bind_apply [of "fs_readFile fresh p"] rd pr g
        keys_def io_bind_apply [of "validateLocalStackConnectivity fresh"] va
        io_bind_apply [of "io_for _ _ _"] io_return_apply s0_def)
  then have im: "importState fresh p w2
      = (ImportSuccess s1 (generateImportRecommendations fresh s1 (JStr ''1.0'')), w3)"
    by (simp add: importState_def)
  have tot: "distinct (services options) \<longrightarrow> totalResources s = JNum (importedResources s1)"
    using distinct_total [OF pe only] s1(1) by (simp add: exported_bucket_count_def m_def)
  from im s1 doc(2) tot show ?thesis
    by (simp add: exported_bucket_count_def m_def)
qed

theorem export_import_round_trip_witness:
  "exportState sample_env bucket_options empty_world
     = (ExportSuccess ''out.yml''
          \<lparr>exportPath = ''out.yml'', servicesExported = 2, totalResources = JNum 2, fileSize = 8,
           recommendations =
             [''Share this file with team members to replicate the environment'',
              ''Store in version control to track environment changes'']\<rparr>,
        \<lparr>env = env exported_world,
         calls = [HttpCall (health_request None), HttpCall s3_listing, HttpCall dynamodb_listing,
                  FileWrite ''out.yml'' ''snapshot'', FileStat ''out.yml'']\<rparr>)
   \<and> exported_services sample_env bucket_options empty_world
       = [(''s3'', service_state ''buckets''
                     (JArr [JObj [(''name'', JStr ''assets''), (''creationDate'', JStr ''2024-01-01''),
                                  (''objects'', JArr [])],
                            JObj [(''name'', JStr ''logs''), (''creationDate'', JStr ''2024-01-02''),
                                  (''objects'', JArr [])]])
                     (JNum 2)),
          (''DynamoDB'', service_state ''tables'' (JArr []) (JNum 0))]
   \<and> only_buckets (exported_services sample_env bucket_options empty_world)
   \<and> exported_bucket_count (exported_services sample_env bucket_options empty_world) = 2
   \<and> distinct (services bucket_options)
   \<and> readFile fresh_env ''out.yml'' (env exported_world) = (Inr ''snapshot'', env exported_world)
   \<and> parse fresh_env ''snapshot'' = Inr (export_document sample_env bucket_options empty_world)
   \<and> (\<exists>summary recs w3.
         importState fresh_env ''out.yml'' exported_world = (ImportSuccess summary recs, w3)
         \<and> importedResources summary = 2
         \<and> skippedResources summary = JNum 0
         \<and> errors summary = [])"
proof -
  have ex: "exportState sample_env bucket_options empty_world
     = (ExportSuccess ''out.yml''
          \<lparr>exportPath = ''out.yml'', servicesExported = 2, totalResources = JNum 2, fileSize = 8,
           recommendations =
             [''Share this file with team members to replicate the environment'',
              ''Store in version control to track environment changes'']\<rparr>,
        \<lparr>env = env exported_world,
         calls = [HttpCall (health_request None), HttpCall s3_listing, HttpCall dynamodb_listing,
                  FileWrite ''out.yml'' ''snapshot'', FileStat ''out.yml'']\<rparr>)"
    by code_simp
  have es: "exported_services sample_env bucket_options empty_world
       = [(''s3'', service_state ''buckets''
                     (JArr [JObj [(''name'', JStr ''assets''), (''creationDate'', JStr ''2024-01-01''),
                                  (''objects'', JArr [])],
                            JObj [(''name'', JStr ''logs''), (''creationDate'', JStr ''2024-01-02''),
                                  (''objects'', JArr [])]])
                     (JNum 2)),
          (''DynamoDB'', service_state ''tables'' (JArr []) (JNum 0))]"
    by code_simp
  have only: "only_buckets (exported_services sample_env bucket_options empty_world)"
    by code_simp
  have two: "exported_bucket_count (exported_services sample_env bucket_options empty_world) = 2"
    by code_simp
  have dist: "distinct (services bucket_options)"
    by code_simp
  have str: "stringify sample_env (export_document sample_env bucket_options empty_world) = ''snapshot''"
    by (simp add: sample_env_def scripted_env_def)
  have rd: "readFile fresh_env ''out.yml'' (env exported_world) = (Inr ''snapshot'', env exported_world)"
    by code_simp
  have pr: "parse fresh_env ''snapshot'' = Inr (export_document sample_env bucket_options empty_world)"
    by (simp add: fresh_env_def scripted_env_def fresh_parse_def)
  have health: "\<forall>x. \<exists>r. fst (http fresh_env (health_request (Some 5000)) x) = Inr r"
    by (simp add: fresh_env_def scripted_env_def fresh_answer_def health_request_def)
  have put: "\<forall>req x. meth req = ''PUT'' \<longrightarrow> (\<exists>r. fst (http fresh_env req x) = Inr r)"
    by (simp add: fresh_env_def scripted_env_def fresh_answer_def)
  from rd str have rf: "fst (readFile fresh_env ''out.yml'' (env exported_world))
      = Inr (stringify sample_env (export_document sample_env bucket_options empty_world))"
    by simp
  from pr str have yaml: "parse fresh_env (stringify sample_env (export_document sample_env bucket_options empty_world))
      = Inr (export_document sample_env bucket_options empty_world)"
    by simp
  from export_import_round_trip [OF ex only rf yaml health put] two
  have im: "\<exists>summary recs w3.
         importState fresh_env ''out.yml'' exported_world = (ImportSuccess summary recs, w3)
         \<and> importedResources summary = 2
         \<and> skippedResources summary = JNum 0
         \<and> errors summary = []"
    by auto
  from ex es only two dist rd pr im show ?thesis
    by (intro conjI)
qed

section \<open>The summary of an export\<close>

text \<open>
  Claim C4 on the program: an export of the one kind \<^verbatim>\<open>glue\<close>, which has no extractor.
  The loop leaves the services of the document empty, and the summary reports one
  service exported: \<^verbatim>\<open>servicesExported\<close> is the length of the list requested.
\<close>

theorem services_exported_counts_requested:
  "exported_services sample_env
        \<lparr>outputPath = Some ''out.yml'', services = [''glue''], includeData = None\<rparr> empty_world = []
   \<and> exportState sample_env
        \<lparr>outputPath = Some ''out.yml'', services = [''glue''], includeData = None\<rparr> empty_world
     = (ExportSuccess ''out.yml''
          \<lparr>exportPath = ''out.yml'', servicesExported = 1, totalResources = JNum 0, fileSize = 8,
           recommendations =
             [''No resources found - ensure LocalStack services are running and populated'',
              ''Share this file with team members to replicate the environment'',
              ''Store in version control to track environment changes'']\<rparr>,
        \<lparr>env = [(''out.yml'', ''snapshot'')],
         calls = [HttpCall (health_request None),
                  FileWrite ''out.yml''
                    (stringify sample_env
                       (stateData ''2024-01-01T00:00:00.000Z'' (JStr ''3.0.2'') [''glue''] [] (JNum 0))),
                  FileStat ''out.yml'']\<rparr>)"
  by code_simp

end
